theory Spec2Isabelle
  imports Main "HOL-Library.Char_ord" "HOL-Library.List_Lexorder" "HOL-Library.Sublist"
    "HOL-Library.AList" "HOL-Library.Multiset"
begin

section \<open>The heuristic rule catalog and report formatter of SOAR (advisor/rules.go)\<close>

subsection \<open>Rules\<close>

text \<open>
  The struct \<open>Rule\<close> of advisor/rules.go. Go strings are byte sequences, so a
  \<open>string\<close> here holds the UTF-8 bytes. The field \<open>Func\<close>, the pointer to the
  rule's check function, is left out: neither the ignore filter nor the formatter reads it.
\<close>

record Rule =
  Item :: string
  Severity :: string
  Summary :: string
  Content :: string
  Case :: string
  Position :: int

text \<open>The zero value of \<open>Rule\<close>, which Go returns when a map is read at a missing key.\<close>

definition zero_Rule :: Rule where
  "zero_Rule = \<lparr>Item = [], Severity = [], Summary = [], Content = [], Case = [], Position = 0\<rparr>"

subsection \<open>The catalog\<close>

text \<open>
  The map literal that \<open>InitHeuristicRules\<close> assigns to \<open>HeuristicRules\<close>, entry by
  entry in source order: the key, the \<open>Item\<close> field and the \<open>Severity\<close> field of each
  entry. The prose fields (\<open>Summary\<close>, \<open>Content\<close>, \<open>Case\<close>) are not transcribed
  here, except for the entry \<open>OK\<close> below, which the formatter inserts.
\<close>

definition HeuristicRules_entries :: "(string \<times> string \<times> string) list" where
  "HeuristicRules_entries = [
    (''OK'', ''OK'', ''L0''), (''ALI.001'', ''ALI.001'', ''L0''), (''ALI.002'', ''ALI.002'', ''L8''),
    (''ALI.003'', ''ALI.003'', ''L1''), (''ALT.001'', ''ALT.001'', ''L4''), (''ALT.002'', ''ALT.002'', ''L2''),
    (''ALT.003'', ''ALT.003'', ''L0''), (''ALT.004'', ''ALT.004'', ''L0''), (''ARG.001'', ''ARG.001'', ''L4''),
    (''ARG.002'', ''ARG.002'', ''L1''), (''ARG.003'', ''ARG.003'', ''L4''), (''ARG.004'', ''ARG.004'', ''L4''),
    (''ARG.005'', ''ARG.005'', ''L1''), (''ARG.006'', ''ARG.006'', ''L1''), (''ARG.007'', ''ARG.007'', ''L3''),
    (''ARG.008'', ''ARG.008'', ''L1''), (''ARG.009'', ''ARG.009'', ''L1''), (''ARG.010'', ''ARG.010'', ''L1''),
    (''ARG.011'', ''ARG.011'', ''L3''), (''ARG.012'', ''ARG.012'', ''L2''), (''ARG.013'', ''ARG.013'', ''L0''),
    (''ARG.014'', ''ARG.014'', ''L4''), (''CLA.001'', ''CLA.001'', ''L4''), (''CLA.002'', ''CLA.002'', ''L3''),
    (''CLA.003'', ''CLA.003'', ''L2''), (''CLA.004'', ''CLA.004'', ''L2''), (''CLA.005'', ''CLA.005'', ''L2''),
    (''CLA.006'', ''CLA.006'', ''L4''), (''CLA.008'', ''CLA.008'', ''L2''), (''CLA.009'', ''CLA.009'', ''L2''),
    (''CLA.010'', ''CLA.010'', ''L2''), (''CLA.011'', ''CLA.011'', ''L1''), (''CLA.012'', ''CLA.012'', ''L2''),
    (''CLA.013'', ''CLA.013'', ''L3''), (''CLA.014'', ''CLA.014'', ''L2''), (''CLA.015'', ''CLA.015'', ''L4''),
    (''CLA.016'', ''CLA.016'', ''L2''), (''COL.001'', ''COL.001'', ''L1''), (''COL.002'', ''COL.002'', ''L2''),
    (''COL.003'', ''COL.003'', ''L2''), (''COL.004'', ''COL.004'', ''L1''), (''COL.005'', ''COL.005'', ''L1''),
    (''COL.006'', ''COL.006'', ''L3''), (''COL.007'', ''COL.007'', ''L3''), (''COL.008'', ''COL.008'', ''L1''),
    (''COL.009'', ''COL.009'', ''L2''), (''COL.010'', ''COL.010'', ''L2''), (''COL.011'', ''COL.011'', ''L0''),
    (''COL.012'', ''COL.012'', ''L5''), (''COL.013'', ''COL.013'', ''L4''), (''COL.014'', ''COL.014'', ''L5''),
    (''COL.015'', ''COL.015'', ''L4''), (''COL.016'', ''COL.016'', ''L1''), (''COL.017'', ''COL.017'', ''L2''),
    (''COL.018'', ''COL.018'', ''L9''), (''COL.019'', ''COL.019'', ''L1''), (''DIS.001'', ''DIS.001'', ''L1''),
    (''DIS.002'', ''DIS.002'', ''L3''), (''DIS.003'', ''DIS.003'', ''L3''), (''FUN.001'', ''FUN.001'', ''L2''),
    (''FUN.002'', ''FUN.002'', ''L1''), (''FUN.003'', ''FUN.003'', ''L3''), (''FUN.004'', ''FUN.004'', ''L4''),
    (''FUN.005'', ''FUN.005'', ''L1''), (''FUN.006'', ''FUN.006'', ''L1''), (''FUN.007'', ''FUN.007'', ''L1''),
    (''FUN.008'', ''FUN.008'', ''L1''), (''FUN.009'', ''FUN.009'', ''L1''), (''GRP.001'', ''GRP.001'', ''L2''),
    (''JOI.001'', ''JOI.001'', ''L2''), (''JOI.002'', ''JOI.002'', ''L4''), (''JOI.003'', ''JOI.003'', ''L4''),
    (''JOI.004'', ''JOI.004'', ''L4''), (''JOI.005'', ''JOI.005'', ''L2''), (''JOI.006'', ''JOI.006'', ''L4''),
    (''JOI.007'', ''JOI.007'', ''L4''), (''JOI.008'', ''JOI.008'', ''L4''), (''KEY.001'', ''KEY.001'', ''L2''),
    (''KEY.002'', ''KEY.002'', ''L4''), (''KEY.003'', ''KEY.003'', ''L4''), (''KEY.004'', ''KEY.004'', ''L0''),
    (''KEY.005'', ''KEY.005'', ''L2''), (''KEY.006'', ''KEY.006'', ''L4''), (''KEY.007'', ''KEY.007'', ''L4''),
    (''KEY.008'', ''KEY.008'', ''L4''), (''KEY.009'', ''KEY.009'', ''L0''), (''KEY.010'', ''KEY.010'', ''L0''),
    (''KWR.001'', ''KWR.001'', ''L2''), (''KWR.002'', ''KWR.002'', ''L2''), (''KWR.003'', ''KWR.003'', ''L1''),
    (''KWR.004'', ''KWR.004'', ''L1''), (''KWR.005'', ''KWR.005'', ''L1''), (''LCK.001'', ''LCK.001'', ''L3''),
    (''LCK.002'', ''LCK.002'', ''L3''), (''LIT.001'', ''LIT.001'', ''L2''), (''LIT.002'', ''LIT.002'', ''L4''),
    (''LIT.003'', ''LIT.003'', ''L3''), (''LIT.004'', ''LIT.004'', ''L1''), (''RES.001'', ''RES.001'', ''L4''),
    (''RES.002'', ''RES.002'', ''L4''), (''RES.003'', ''RES.003'', ''L4''), (''RES.004'', ''RES.004'', ''L4''),
    (''RES.005'', ''RES.005'', ''L4''), (''RES.006'', ''RES.006'', ''L4''), (''RES.007'', ''RES.007'', ''L4''),
    (''RES.008'', ''RES.008'', ''L2''), (''RES.009'', ''RES.009'', ''L2''), (''RES.010'', ''RES.010'', ''L2''),
    (''RES.011'', ''RES.011'', ''L2''), (''SEC.001'', ''SEC.001'', ''L0''), (''SEC.002'', ''SEC.002'', ''L0''),
    (''SEC.003'', ''SEC.003'', ''L0''), (''SEC.004'', ''SEC.004'', ''L0''), (''STA.001'', ''STA.001'', ''L0''),
    (''STA.002'', ''STA.002'', ''L1''), (''STA.003'', ''STA.003'', ''L1''), (''STA.004'', ''STA.004'', ''L1''),
    (''SUB.001'', ''SUB.001'', ''L4''), (''SUB.002'', ''SUB.002'', ''L2''), (''SUB.003'', ''SUB.003'', ''L3''),
    (''SUB.004'', ''SUB.004'', ''L3''), (''SUB.005'', ''SUB.005'', ''L8''), (''SUB.006'', ''SUB.006'', ''L2''),
    (''SUB.007'', ''SUB.007'', ''L2''), (''TBL.001'', ''TBL.001'', ''L4''), (''TBL.002'', ''TBL.002'', ''L4''),
    (''TBL.003'', ''TBL.003'', ''L8''), (''TBL.004'', ''TBL.004'', ''L2''), (''TBL.005'', ''TBL.005'', ''L4''),
    (''TBL.006'', ''TBL.006'', ''L1''), (''TBL.007'', ''TBL.007'', ''L1''), (''TBL.008'', ''TBL.008'', ''L4'')
  ]"

text \<open>The catalog as the map from rule code to (Item, Severity) that the entries build.\<close>

definition HeuristicRules :: "string \<rightharpoonup> string \<times> string" where
  "HeuristicRules = map_of HeuristicRules_entries"

text \<open>The entry \<open>HeuristicRules["OK"]\<close> in full (lines 120 to 127).\<close>

definition HeuristicRules_OK :: Rule where
  "HeuristicRules_OK =
     \<lparr>Item = ''OK'', Severity = ''L0'', Summary = ''OK'', Content = ''OK'', Case = ''OK'',
      Position = 0\<rparr>"

text \<open>
  The two patterns of the catalog invariant, written out on byte strings:
  \<open>^(OK|[A-Z]{3}\.\d{3})$\<close> and \<open>^L[0-9]$\<close>.
\<close>

definition is_upper :: "char \<Rightarrow> bool" where
  "is_upper c = (CHR ''A'' \<le> c \<and> c \<le> CHR ''Z'')"

definition is_digit :: "char \<Rightarrow> bool" where
  "is_digit c = (CHR ''0'' \<le> c \<and> c \<le> CHR ''9'')"

fun is_rule_code :: "string \<Rightarrow> bool" where
  "is_rule_code [a, b, c, d, e, f, g] =
     (is_upper a \<and> is_upper b \<and> is_upper c \<and> d = CHR ''.'' \<and>
      is_digit e \<and> is_digit f \<and> is_digit g)"
| "is_rule_code s = (s = ''OK'')"

fun is_severity :: "string \<Rightarrow> bool" where
  "is_severity [l, d] = (l = CHR ''L'' \<and> is_digit d)"
| "is_severity s = False"

text \<open>\<open>strings.HasPrefix(s, p)\<close>.\<close>

definition HasPrefix :: "string \<Rightarrow> string \<Rightarrow> bool" where
  "HasPrefix s p = (take (length p) s = p)"

definition external_prefixes :: "string list" where
  "external_prefixes = [''ERR'', ''EXP'', ''PRO'', ''TRA'', ''IDX'']"

definition catalog_entry_ok :: "string \<times> string \<times> string \<Rightarrow> bool" where
  "catalog_entry_ok e =
     (case e of (k, item, sev) \<Rightarrow>
        is_rule_code k \<and> item = k \<and> is_severity sev \<and>
        list_all (\<lambda>p. \<not> HasPrefix k p) external_prefixes)"

subsection \<open>The Go library functions the code calls\<close>

text \<open>
  \<open>strings.TrimLeft(s, cutset)\<close> and \<open>strings.Trim(s, cutset)\<close>: every leading
  (and, for \<open>Trim\<close>, also every trailing) character that is in the cutset is removed.
\<close>

definition TrimLeft :: "string \<Rightarrow> string \<Rightarrow> string" where
  "TrimLeft s cutset = dropWhile (\<lambda>c. c \<in> set cutset) s"

definition TrimRight :: "string \<Rightarrow> string \<Rightarrow> string" where
  "TrimRight s cutset = rev (dropWhile (\<lambda>c. c \<in> set cutset) (rev s))"

definition Trim :: "string \<Rightarrow> string \<Rightarrow> string" where
  "Trim s cutset = TrimRight (TrimLeft s cutset) cutset"

text \<open>\<open>strings.Join(elems, sep)\<close>.\<close>

fun Join :: "string list \<Rightarrow> string \<Rightarrow> string" where
  "Join [] sep = []"
| "Join [x] sep = x"
| "Join (x # y # ys) sep = x @ sep @ Join (y # ys) sep"

text \<open>
  Go's \<open>int\<close> on a 64-bit platform: arithmetic wraps around in two's complement.
\<close>

definition wrap64 :: "int \<Rightarrow> int" where
  "wrap64 x = (x + 2 ^ 63) mod 2 ^ 64 - 2 ^ 63"

definition sub64 :: "int \<Rightarrow> int \<Rightarrow> int" where
  "sub64 a b = wrap64 (a - b)"

definition mul64 :: "int \<Rightarrow> int \<Rightarrow> int" where
  "mul64 a b = wrap64 (a * b)"

text \<open>
  \<open>strconv.Atoi\<close>. It returns a value together with an error; a syntax error comes
  with the value 0, a range error with the nearest representable value. The digits are
  read from the left, and the first offence (a byte that is no digit, or an overflow of
  the unsigned 64-bit accumulator) decides which error is reported.
\<close>

datatype NumError = ErrSyntax | ErrRange

definition digit_val :: "char \<Rightarrow> int" where
  "digit_val c = of_char c - of_char CHR ''0''"

fun ParseUint :: "int \<Rightarrow> string \<Rightarrow> int \<times> NumError option" where
  "ParseUint n [] = (n, None)"
| "ParseUint n (c # cs) =
     (if \<not> is_digit c then (0, Some ErrSyntax)
      else if n * 10 + digit_val c \<ge> 2 ^ 64 then (2 ^ 64 - 1, Some ErrRange)
      else ParseUint (n * 10 + digit_val c) cs)"

definition Atoi :: "string \<Rightarrow> int \<times> NumError option" where
  "Atoi s =
     (if s = [] then (0, Some ErrSyntax)
      else
        let neg = (hd s = CHR ''-'');
            ds = (if hd s = CHR ''+'' \<or> hd s = CHR ''-'' then tl s else s)
        in if ds = [] then (0, Some ErrSyntax)
           else (case ParseUint 0 ds of
                   (un, Some ErrSyntax) \<Rightarrow> (0, Some ErrSyntax)
                 | (un, _) \<Rightarrow>
                     if \<not> neg \<and> un \<ge> 2 ^ 63 then (2 ^ 63 - 1, Some ErrRange)
                     else if neg \<and> un > 2 ^ 63 then (- (2 ^ 63), Some ErrRange)
                     else (if neg then - un else un, None)))"

subsection \<open>The ignore filter\<close>

text \<open>
  \<open>IsIgnoreRule\<close> (lines 1215 to 1225). The list \<open>common.Config.IgnoreRules\<close> is an
  argument. The loop returns at the first pattern that matches.
\<close>

fun IsIgnoreRule :: "string list \<Rightarrow> string \<Rightarrow> bool" where
  "IsIgnoreRule [] item = False"
| "IsIgnoreRule (ir # irs) item =
     (let ir' = Trim ir ''*''
      in if HasPrefix item ir' \<and> ir' \<noteq> ''OK'' \<and> ir' \<noteq> [] then True
         else IsIgnoreRule irs item)"

text \<open>
  The filter as the specification words it: the trailing \<open>*\<close> of a pattern is stripped,
  and what is left must be a non-empty prefix of the code other than \<open>OK\<close>.
\<close>

definition spec_is_ignored :: "string list \<Rightarrow> string \<Rightarrow> bool" where
  "spec_is_ignored patterns code =
     list_ex (\<lambda>p. let q = TrimRight p ''*'' in q \<noteq> [] \<and> prefix q code \<and> q \<noteq> ''OK'') patterns"

subsection \<open>The blacklist\<close>

text \<open>
  \<open>InBlackList\<close> (lines 1230 to 1248). The list \<open>common.BlackList\<close> is an argument, and
  so is the regular expression library: \<open>Compile\<close> stands for \<open>regexp.Compile\<close>
  (\<open>None\<close> when it returns an error) and \<open>FindString\<close> for the method of that name,
  which returns the text of the leftmost match, and the empty string when there is none.
\<close>

fun InBlackList ::
  "(string \<Rightarrow> 're option) \<Rightarrow> ('re \<Rightarrow> string \<Rightarrow> string) \<Rightarrow> string list \<Rightarrow> string \<Rightarrow> bool" where
  "InBlackList Compile FindString [] sql = False"
| "InBlackList Compile FindString (r # rs) sql =
     (if sql = r then True
      else (case Compile (''(?i)'' @ r) of
              None \<Rightarrow> InBlackList Compile FindString rs sql
            | Some re \<Rightarrow>
                if FindString re sql \<noteq> [] then True
                else InBlackList Compile FindString rs sql))"

text \<open>
  The blacklist as the specification words it: an entry counts when it equals the SQL or
  matches it as a case-insensitive regular expression. \<open>MatchString\<close> stands for the
  library's method of that name.
\<close>

definition spec_in_blacklist ::
  "(string \<Rightarrow> 're option) \<Rightarrow> ('re \<Rightarrow> string \<Rightarrow> bool) \<Rightarrow> string list \<Rightarrow> string \<Rightarrow> bool" where
  "spec_in_blacklist Compile MatchString blacklist sql =
     list_ex (\<lambda>r. sql = r \<or>
                (case Compile (''(?i)'' @ r) of None \<Rightarrow> False | Some re \<Rightarrow> MatchString re sql))
       blacklist"

text \<open>
  A fragment of Go's regular expressions, to run the blacklist on: a pattern is an
  optional flag group \<open>(?i)\<close> followed by ASCII letters, digits and spaces, each
  optionally under a greedy \<open>*\<close>. On this fragment, for ASCII text, the functions below
  compute what the library computes (leftmost match, longest repetition first). Other
  patterns are outside the fragment, and \<open>frag_Compile\<close> answers \<open>None\<close> for them; the
  fragment is used only at patterns inside it.
\<close>

datatype re_item = Lit char | Star char

definition is_plain :: "char \<Rightarrow> bool" where
  "is_plain c = ((CHR ''a'' \<le> c \<and> c \<le> CHR ''z'') \<or> is_upper c \<or> is_digit c \<or> c = CHR '' '')"

fun parse_items :: "string \<Rightarrow> re_item list option" where
  "parse_items [] = Some []"
| "parse_items [c] = (if is_plain c then Some [Lit c] else None)"
| "parse_items (c # d # cs) =
     (if \<not> is_plain c then None
      else if d = CHR ''*'' then map_option (Cons (Star c)) (parse_items cs)
      else map_option (Cons (Lit c)) (parse_items (d # cs)))"

definition frag_Compile :: "string \<Rightarrow> (bool \<times> re_item list) option" where
  "frag_Compile s =
     (if take 4 s = ''(?i)'' then map_option (Pair True) (parse_items (drop 4 s))
      else map_option (Pair False) (parse_items s))"

definition to_lower :: "char \<Rightarrow> char" where
  "to_lower c = (if is_upper c then char_of (of_char c + (32::nat)) else c)"

definition same_byte :: "bool \<Rightarrow> char \<Rightarrow> char \<Rightarrow> bool" where
  "same_byte fold_case c d = (if fold_case then to_lower c = to_lower d else c = d)"

text \<open>The length of the match of the items at the start of the text, if there is one.\<close>

fun match_here :: "bool \<Rightarrow> re_item list \<Rightarrow> string \<Rightarrow> nat option" where
  "match_here i [] s = Some 0"
| "match_here i (Lit c # items) [] = None"
| "match_here i (Lit c # items) (d # s) =
     (if same_byte i c d then map_option Suc (match_here i items s) else None)"
| "match_here i (Star c # items) [] = match_here i items []"
| "match_here i (Star c # items) (d # s) =
     (if same_byte i c d
      then (case match_here i (Star c # items) s of
              Some n \<Rightarrow> Some (Suc n)
            | None \<Rightarrow> match_here i items (d # s))
      else match_here i items (d # s))"

text \<open>The leftmost match: its text, or \<open>None\<close> when the pattern matches nowhere.\<close>

fun leftmost :: "bool \<Rightarrow> re_item list \<Rightarrow> string \<Rightarrow> string option" where
  "leftmost i items [] = map_option (\<lambda>n. []) (match_here i items [])"
| "leftmost i items (d # s) =
     (case match_here i items (d # s) of
        Some n \<Rightarrow> Some (take n (d # s))
      | None \<Rightarrow> leftmost i items s)"

definition frag_FindString :: "bool \<times> re_item list \<Rightarrow> string \<Rightarrow> string" where
  "frag_FindString re s = (case leftmost (fst re) (snd re) s of None \<Rightarrow> [] | Some t \<Rightarrow> t)"

definition frag_MatchString :: "bool \<times> re_item list \<Rightarrow> string \<Rightarrow> bool" where
  "frag_MatchString re s = (leftmost (fst re) (snd re) s \<noteq> None)"

subsection \<open>Finding sets\<close>

text \<open>
  A \<open>map[string]Rule\<close> is an association list whose keys are distinct. The order of the
  list carries no meaning: where the code collects keys it sorts them before use, and
  where it ranges over the map without sorting, the order of the visit is chosen by the
  Go runtime (see \<open>map_range\<close> below).
\<close>

type_synonym RuleMap = "(string \<times> Rule) list"

definition keys :: "RuleMap \<Rightarrow> string set" where
  "keys m = fst ` set m"

text \<open>\<open>m[k]\<close>: the zero value when the key is missing.\<close>

definition lookup :: "RuleMap \<Rightarrow> string \<Rightarrow> Rule" where
  "lookup m k = (case map_of m k of None \<Rightarrow> zero_Rule | Some r \<Rightarrow> r)"

text \<open>
  The idiom \<open>for item := range m { if p(item) { xs = append(xs, item) } }\<close> followed by
  \<open>sort.Strings(xs)\<close>: the keys that satisfy \<open>p\<close>, in increasing byte order.
\<close>

definition sorted_keys :: "(string \<Rightarrow> bool) \<Rightarrow> RuleMap \<Rightarrow> string list" where
  "sorted_keys p m = sort (filter p (map fst m))"

subsection \<open>What the formatter takes from outside the file\<close>

text \<open>The struct \<open>JSONSuggest\<close>; the fields carry the prefix \<open>json_\<close>.\<close>

record JSONSuggest =
  json_ID :: string
  json_Fingerprint :: string
  json_Score :: int
  json_Sample :: string
  json_Explain :: "Rule list"
  json_HeuristicRules :: "Rule list"
  json_IndexRules :: "Rule list"
  json_Tables :: "string list"

text \<open>
  The configuration snapshot, the functions of other packages and of other files of this
  package that \<open>FormatSuggest\<close> calls, and the order in which the Go runtime visits a map:
  \<^item> \<open>IgnoreRules\<close>, \<open>ExplainSQLReportType\<close>, \<open>ReportType\<close>: fields of \<open>common.Config\<close>;
  \<^item> \<open>MergeConflictHeuristicRules\<close>: the conflict resolver, defined in another file of
    the package;
  \<^item> \<open>query_Fingerprint\<close>, \<open>query_Id\<close>, \<open>ast_Pretty\<close>, \<open>ast_SchemaMetaInfo\<close>,
    \<open>common_Score\<close>, \<open>common_MarkdownEscape\<close>, \<open>pretty_Sprint\<close>: the functions
    \<open>query.Fingerprint\<close>, \<open>query.Id\<close>, \<open>ast.Pretty\<close>, \<open>ast.SchemaMetaInfo\<close>,
    \<open>common.Score\<close>, \<open>common.MarkdownEscape\<close>, \<open>pretty.Sprint\<close>;
  \<^item> \<open>json_MarshalIndent\<close>: \<open>json.MarshalIndent(sug, "", "  ")\<close>, \<open>None\<close> when it
    returns an error;
  \<^item> \<open>map_range\<close>: the entries of a map in the order in which a \<open>for ... range\<close>
    statement visits them. Go leaves this order unspecified, so it is any rearrangement
    of the entries.
  The calls of \<open>common.Log\<close> are not modelled.
\<close>

record Env =
  IgnoreRules :: "string list"
  ExplainSQLReportType :: string
  ReportType :: string
  MergeConflictHeuristicRules :: "RuleMap \<Rightarrow> RuleMap"
  query_Fingerprint :: "string \<Rightarrow> string"
  query_Id :: "string \<Rightarrow> string"
  ast_Pretty :: "string \<Rightarrow> string \<Rightarrow> string"
  ast_SchemaMetaInfo :: "string \<Rightarrow> string \<Rightarrow> string list"
  common_Score :: "int \<Rightarrow> string"
  common_MarkdownEscape :: "string \<Rightarrow> string"
  pretty_Sprint :: "Rule \<Rightarrow> string"
  json_MarshalIndent :: "JSONSuggest \<Rightarrow> string option"
  map_range :: "RuleMap \<Rightarrow> RuleMap"

text \<open>An order of visit is admissible when it rearranges the entries of every map.\<close>

definition admissible_range :: "(RuleMap \<Rightarrow> RuleMap) \<Rightarrow> bool" where
  "admissible_range r = (\<forall>m. mset (r m) = mset m)"

subsection \<open>Formatted printing\<close>

definition nl :: string where
  "nl = [CHR 0x0A]"

text \<open>
  \<open>fmt.Sprintln\<close> of one and of two strings: operands are separated by a space and a
  newline is appended.
\<close>

definition Sprintln1 :: "string \<Rightarrow> string" where
  "Sprintln1 a = a @ nl"

definition Sprintln2 :: "string \<Rightarrow> string \<Rightarrow> string" where
  "Sprintln2 a b = a @ '' '' @ b @ nl"

subsection \<open>The score of the json report\<close>

text \<open>The loop of \<open>formatJSON\<close> that computes the score (lines 1510 to 1524).\<close>

definition json_score_step :: "RuleMap \<Rightarrow> string \<times> Rule \<Rightarrow> int \<Rightarrow> int" where
  "json_score_step suggest e score =
     (let item = fst e;
          l = fst (Atoi (TrimLeft (Severity (lookup suggest item)) ''L''));
          score' = sub64 score (mul64 l 5)
      in if HasPrefix item ''ERR'' \<and> Content (lookup suggest item) \<noteq> [] then 0 else score')"

definition formatJSON_score :: "Env \<Rightarrow> RuleMap \<Rightarrow> int" where
  "formatJSON_score env suggest =
     (let score = fold (json_score_step suggest) (map_range env suggest) 100
      in if score < 0 then 0 else score)"

text \<open>\<open>formatJSON\<close> (lines 1503 to 1581).\<close>

definition formatJSON_sug :: "Env \<Rightarrow> string \<Rightarrow> string \<Rightarrow> RuleMap \<Rightarrow> JSONSuggest" where
  "formatJSON_sug env sql db suggest =
     (let fingerprint = query_Fingerprint env sql;
          qid = query_Id env fingerprint
      in \<lparr>json_ID = qid,
          json_Fingerprint = fingerprint,
          json_Score = formatJSON_score env suggest,
          json_Sample = sql,
          json_Explain =
            map (lookup suggest) (sorted_keys (\<lambda>item. HasPrefix item ''EXP'') suggest),
          json_HeuristicRules =
            map (lookup suggest)
              (sorted_keys
                 (\<lambda>item. \<not> HasPrefix item ''EXP'' \<and> \<not> HasPrefix item ''IDX'' \<and>
                    \<not> (HasPrefix item ''ERR'' \<and> Content (lookup suggest item) = []))
                 suggest),
          json_IndexRules =
            map (lookup suggest) (sorted_keys (\<lambda>item. HasPrefix item ''IDX'') suggest),
          json_Tables = ast_SchemaMetaInfo env sql db\<rparr>)"

definition formatJSON :: "Env \<Rightarrow> string \<Rightarrow> string \<Rightarrow> RuleMap \<Rightarrow> string" where
  "formatJSON env sql db suggest =
     (case json_MarshalIndent env (formatJSON_sug env sql db suggest) of
        Some js \<Rightarrow> js
      | None \<Rightarrow> [])"

subsection \<open>The markdown family of reports\<close>

text \<open>
  The branch of \<open>FormatSuggest\<close> for the formats \<open>markdown\<close>, \<open>html\<close>,
  \<open>explain-digest\<close> and \<open>duplicate-key-checker\<close> (lines 1320 to 1467), block by block.
  Each block works on the map \<open>suggest\<close>, the lines \<open>buf\<close> and the \<open>score\<close>.
  The variable \<open>id\<close> of the source is \<open>qid\<close> here.
\<close>

definition is_markdown_family :: "string \<Rightarrow> bool" where
  "is_markdown_family format =
     (format = ''markdown'' \<or> format = ''html'' \<or> format = ''explain-digest'' \<or>
      format = ''duplicate-key-checker'')"

text \<open>The header with the query (lines 1321 to 1333).\<close>

definition query_header :: "Env \<Rightarrow> string \<Rightarrow> string \<Rightarrow> string \<Rightarrow> string \<Rightarrow> string list" where
  "query_header env sql format fingerprint qid =
     (let shown =
            (if ExplainSQLReportType env = ''fingerprint'' then fingerprint
             else if ExplainSQLReportType env = ''sample'' then sql
             else ast_Pretty env sql format)
      in [''# Query: '' @ qid @ nl, ''```sql'' @ nl @ shown @ nl @ ''```'' @ nl])"

text \<open>
  The score after one more finding (lines 1424 to 1430 and 1458 to 1464): the severity
  with its \<open>L\<close>s trimmed is parsed; on an error the score becomes 0.
\<close>

definition score_minus :: "int \<Rightarrow> string \<Rightarrow> int" where
  "score_minus score severity =
     (case Atoi (Trim severity ''L'') of
        (minus', None) \<Rightarrow> sub64 score (mul64 minus' 5)
      | (minus', Some err) \<Rightarrow> 0)"

text \<open>MySQL errors (lines 1336 to 1354).\<close>

definition is_placeholder :: "RuleMap \<Rightarrow> string \<Rightarrow> bool" where
  "is_placeholder suggest item = (HasPrefix item ''ERR'' \<and> Content (lookup suggest item) = [])"

definition mysql_step :: "string \<Rightarrow> RuleMap \<times> string list \<times> int \<Rightarrow> RuleMap \<times> string list \<times> int" where
  "mysql_step item st =
     (case st of (suggest, buf, score) \<Rightarrow>
        (AList.delete item suggest, buf @ [Sprintln1 (Content (lookup suggest item))], 0))"

definition mysql_block :: "RuleMap \<times> string list \<times> int \<Rightarrow> RuleMap \<times> string list \<times> int" where
  "mysql_block st =
     (case st of (suggest, buf, score) \<Rightarrow>
        let sortedMySQLSuggest =
              sorted_keys (\<lambda>item. HasPrefix item ''ERR'' \<and> Content (lookup suggest item) \<noteq> [])
                suggest;
            suggest' = filter (\<lambda>e. \<not> is_placeholder suggest (fst e)) suggest;
            buf' = (if length sortedMySQLSuggest > 0
                    then buf @ [''## MySQL execute failed'' @ nl] else buf)
        in fold mysql_step sortedMySQLSuggest (suggest', buf', score))"

text \<open>Explain (lines 1358 to 1375).\<close>

definition explain_lines :: "string \<Rightarrow> Rule \<Rightarrow> string list" where
  "explain_lines heading r = [Sprintln2 heading (Summary r), Sprintln1 (Content r), Case r @ nl]"

definition explain_block :: "RuleMap \<times> string list \<times> int \<Rightarrow> RuleMap \<times> string list \<times> int" where
  "explain_block st =
     (case st of (suggest, buf, score) \<Rightarrow>
        let (suggest', buf') =
              (if Item (lookup suggest ''EXP.000'') \<noteq> []
               then (AList.delete ''EXP.000'' suggest,
                     buf @ explain_lines ''## '' (lookup suggest ''EXP.000''))
               else (suggest, buf));
            sortedExplainSuggest = sorted_keys (\<lambda>item. HasPrefix item ''EXP'') suggest'
        in (suggest',
            fold (\<lambda>item b. b @ explain_lines ''### '' (lookup suggest' item))
              sortedExplainSuggest buf',
            score))"

text \<open>Profiling and trace (lines 1379 to 1392 and 1396 to 1409).\<close>

definition content_step :: "string \<Rightarrow> RuleMap \<times> string list \<times> int \<Rightarrow> RuleMap \<times> string list \<times> int" where
  "content_step item st =
     (case st of (suggest, buf, score) \<Rightarrow>
        (AList.delete item suggest, buf @ [Sprintln1 (Content (lookup suggest item))], score))"

definition info_heading :: "string \<Rightarrow> string" where
  "info_heading name =
     ''## '' @ name @ [CHR 0xE4, CHR 0xBF, CHR 0xA1, CHR 0xE6, CHR 0x81, CHR 0xAF] @ nl"

definition content_block ::
  "string \<Rightarrow> string \<Rightarrow> RuleMap \<times> string list \<times> int \<Rightarrow> RuleMap \<times> string list \<times> int" where
  "content_block pre name st =
     (case st of (suggest, buf, score) \<Rightarrow>
        let sortedSuggest = sorted_keys (\<lambda>item. HasPrefix item pre) suggest;
            buf' = (if length sortedSuggest > 0 then buf @ [info_heading name] else buf)
        in fold content_step sortedSuggest (suggest, buf', score))"

text \<open>Index advice (lines 1413 to 1438).\<close>

definition create_table_label :: string where
  "create_table_label =
     ''* **'' @
     [CHR 0xE5, CHR 0x8E, CHR 0x9F, CHR 0xE5, CHR 0xBB, CHR 0xBA, CHR 0xE8, CHR 0xA1, CHR 0xA8,
      CHR 0xE8, CHR 0xAF, CHR 0xAD, CHR 0xE5, CHR 0x8F, CHR 0xA5] @
     '':** ''"

definition idx_step ::
  "Env \<Rightarrow> string \<Rightarrow> RuleMap \<Rightarrow> string \<Rightarrow> string list \<times> int \<Rightarrow> string list \<times> int" where
  "idx_step env format suggest item st =
     (case st of (buf, score) \<Rightarrow>
        let r = lookup suggest item
        in (buf @
            [Sprintln2 ''## '' (common_MarkdownEscape env (Summary r)),
             Sprintln2 ''* **Item:** '' item,
             Sprintln2 ''* **Severity:** '' (Severity r),
             Sprintln2 ''* **Content:** '' (common_MarkdownEscape env (Content r))] @
            (if format = ''duplicate-key-checker''
             then [create_table_label @ nl @ ''```sql'' @ nl @ Case r @ nl @ ''```'' @ nl, nl @ nl]
             else [''* **Case:** '' @ common_MarkdownEscape env (Case r) @ nl @ nl]),
            score_minus score (Severity r)))"

definition idx_block ::
  "Env \<Rightarrow> string \<Rightarrow> RuleMap \<times> string list \<times> int \<Rightarrow> RuleMap \<times> string list \<times> int" where
  "idx_block env format st =
     (case st of (suggest, buf, score) \<Rightarrow>
        let sortedIdxSuggest = sorted_keys (\<lambda>item. HasPrefix item ''IDX'') suggest;
            (buf', score') = fold (idx_step env format suggest) sortedIdxSuggest (buf, score)
        in (suggest, buf', score'))"

text \<open>Heuristic findings (lines 1442 to 1467).\<close>

definition heuristic_step ::
  "Env \<Rightarrow> RuleMap \<Rightarrow> string \<Rightarrow> string list \<times> int \<Rightarrow> string list \<times> int" where
  "heuristic_step env suggest item st =
     (case st of (buf, score) \<Rightarrow>
        let r = lookup suggest item;
            buf' = buf @ [Sprintln2 ''##'' (Summary r)]
        in if item = ''OK'' then (buf', score)
           else (buf' @
                 [Sprintln2 ''* **Item:** '' item,
                  Sprintln2 ''* **Severity:** '' (Severity r),
                  Sprintln2 ''* **Content:** '' (common_MarkdownEscape env (Content r))],
                 score_minus score (Severity r)))"

definition heuristic_block ::
  "Env \<Rightarrow> RuleMap \<times> string list \<times> int \<Rightarrow> RuleMap \<times> string list \<times> int" where
  "heuristic_block env st =
     (case st of (suggest, buf, score) \<Rightarrow>
        let sortedHeuristicSuggest =
              sorted_keys
                (\<lambda>item. \<not> HasPrefix item ''EXP'' \<and> \<not> HasPrefix item ''IDX'' \<and>
                   \<not> HasPrefix item ''PRO'')
                suggest;
            (buf', score') = fold (heuristic_step env suggest) sortedHeuristicSuggest (buf, score)
        in (suggest, buf', score'))"

text \<open>The blocks after the header, in the order of the source.\<close>

definition markdown_body ::
  "Env \<Rightarrow> string \<Rightarrow> RuleMap \<times> string list \<times> int \<Rightarrow> RuleMap \<times> string list \<times> int" where
  "markdown_body env format st =
     heuristic_block env
       (idx_block env format
          (content_block ''TRA'' ''Trace''
             (content_block ''PRO'' ''Profiling''
                (explain_block (mysql_block st)))))"

definition markdown_report ::
  "Env \<Rightarrow> string \<Rightarrow> string \<Rightarrow> string \<Rightarrow> string \<Rightarrow> RuleMap \<Rightarrow> RuleMap \<times> string list \<times> int" where
  "markdown_report env sql format fingerprint qid suggest =
     markdown_body env format
       (suggest,
        (if sql \<noteq> [] \<and> length suggest > 0 then query_header env sql format fingerprint qid
         else []),
        100)"

subsection \<open>The other formats\<close>

text \<open>The formats \<open>text\<close> and \<open>lint\<close> and the default dump (lines 1303 to 1318, 1469 to 1474).\<close>

definition text_lines :: "string \<Rightarrow> string \<Rightarrow> string \<times> Rule \<Rightarrow> string list" where
  "text_lines sql qid e =
     (case e of (item, rule) \<Rightarrow>
        [Sprintln2 ''Query: '' sql,
         Sprintln2 ''ID: '' qid,
         Sprintln2 ''Item: '' item,
         Sprintln2 ''Severity: '' (Severity rule),
         Sprintln2 ''Summary: '' (Summary rule),
         Sprintln2 ''Content: '' (Content rule)])"

definition lint_lines :: "string \<times> Rule \<Rightarrow> string list" where
  "lint_lines e =
     (case e of (item, rule) \<Rightarrow>
        if item \<noteq> ''OK'' \<and> \<not> HasPrefix item ''EXP'' then [item @ '' '' @ Summary rule] else [])"

subsection \<open>FormatSuggest\<close>

text \<open>Merging the finding sets (lines 1270 to 1275): a later set overwrites an earlier one.\<close>

definition merge_suggests :: "RuleMap list \<Rightarrow> RuleMap" where
  "merge_suggests suggests =
     fold (\<lambda>s suggest. fold (\<lambda>e m. AList.update (fst e) (snd e) m) s suggest) suggests []"

text \<open>
  The steps between the merge and the choice of the format (lines 1276 to 1297): the
  conflict resolver, the \<open>OK\<close> sentinel, the ignore filter.
\<close>

definition filter_suggest :: "Env \<Rightarrow> RuleMap \<Rightarrow> RuleMap" where
  "filter_suggest env merged =
     (let suggest = MergeConflictHeuristicRules env merged;
          ignoreOK = list_ex (\<lambda>r. ''OK'' = r) (IgnoreRules env);
          suggest1 = (if length suggest < 1 then [(''OK'', HeuristicRules_OK)] else suggest);
          suggest2 = (if ignoreOK \<or> length suggest1 > 1 then AList.delete ''OK'' suggest1
                      else suggest1)
      in filter (\<lambda>e. \<not> IsIgnoreRule (IgnoreRules env) (fst e)) suggest2)"

text \<open>The choice of the format (lines 1299 to 1475): the map, the lines and the score.\<close>

definition format_switch ::
  "Env \<Rightarrow> string \<Rightarrow> string \<Rightarrow> string \<Rightarrow> string \<Rightarrow> string \<Rightarrow> RuleMap \<Rightarrow>
   RuleMap \<times> string list \<times> int" where
  "format_switch env sql currentDB format fingerprint qid suggest =
     (if format = ''json'' then (suggest, [formatJSON env sql currentDB suggest], 100)
      else if format = ''text''
        then (suggest, concat (map (text_lines sql qid) (map_range env suggest)), 100)
      else if format = ''lint''
        then (suggest, concat (map lint_lines (map_range env suggest)), 100)
      else if is_markdown_family format
        then markdown_report env sql format fingerprint qid suggest
      else (suggest,
            Sprintln2 ''Query: '' sql # map (\<lambda>e. pretty_Sprint env (snd e)) (map_range env suggest),
            100))"

text \<open>The rendered string (lines 1478 to 1486).\<close>

definition render :: "Env \<Rightarrow> string list \<Rightarrow> int \<Rightarrow> string" where
  "render env buf score =
     (if ReportType env = ''markdown'' \<or> ReportType env = ''html''
      then (if length buf > 1
            then hd buf @ nl @ common_Score env score @ nl @ nl @ Join (tl buf) nl
            else [])
      else Join buf nl)"

definition FormatSuggest ::
  "Env \<Rightarrow> string \<Rightarrow> string \<Rightarrow> string \<Rightarrow> RuleMap list \<Rightarrow> RuleMap \<times> string" where
  "FormatSuggest env sql currentDB format suggests =
     (let fingerprint = (if sql \<noteq> [] then query_Fingerprint env sql else []);
          qid = (if sql \<noteq> [] then query_Id env fingerprint else []);
          suggest = filter_suggest env (merge_suggests suggests)
      in (case format_switch env sql currentDB format fingerprint qid suggest of
            (suggest', buf, score) \<Rightarrow> (suggest', render env buf score)))"

subsection \<open>The score and the log of FormatSuggest\<close>

text \<open>
  The value of the variable \<open>score\<close> when \<open>FormatSuggest\<close> reaches line 1477: the
  rendered string shows it only through \<open>common.Score\<close>.
\<close>

definition FormatSuggest_score ::
  "Env \<Rightarrow> string \<Rightarrow> string \<Rightarrow> string \<Rightarrow> RuleMap list \<Rightarrow> int" where
  "FormatSuggest_score env sql currentDB format suggests =
     (let fingerprint = (if sql \<noteq> [] then query_Fingerprint env sql else []);
          qid = (if sql \<noteq> [] then query_Id env fingerprint else []);
          suggest = filter_suggest env (merge_suggests suggests)
      in snd (snd (format_switch env sql currentDB format fingerprint qid suggest)))"

text \<open>
  The calls of \<open>common.Log\<close> that \<open>FormatSuggest\<close>, \<open>IsIgnoreRule\<close> and \<open>formatJSON\<close>
  make, as the list of records in the order of the calls. A record is the level, the
  format string and the arguments of the call. An argument is a string, the error that
  \<open>strconv.Atoi\<close> returned (the text it was given and the kind of the error), or the
  error that \<open>json.MarshalIndent\<close> returned. What the functions of other packages log
  is not part of the list.
\<close>

datatype log_level = LogDebug | LogError

datatype log_arg = ArgString string | ArgNumError string NumError | ArgMarshalError

type_synonym log_record = "log_level \<times> string \<times> log_arg list"

text \<open>
  Lines 1424 to 1430 and 1458 to 1464: the call of \<open>common.Log.Debug\<close> in the branch
  \<open>err != nil\<close> of a score loop of the markdown family; \<open>loop\<close> is the name of the
  sorted slice in the message.
\<close>

definition atoi_error_log :: "string \<Rightarrow> string \<Rightarrow> log_record list" where
  "atoi_error_log loop severity =
     (case Atoi (Trim severity ''L'') of
        (minus', None) \<Rightarrow> []
      | (minus', Some err) \<Rightarrow>
          [(LogDebug, ''FormatSuggest, '' @ loop @ '', strconv.Atoi, Error: '',
            [ArgNumError (Trim severity ''L'') err])])"

definition is_heuristic_key :: "string \<Rightarrow> bool" where
  "is_heuristic_key item =
     (\<not> HasPrefix item ''EXP'' \<and> \<not> HasPrefix item ''IDX'' \<and> \<not> HasPrefix item ''PRO'')"

definition idx_log :: "RuleMap \<Rightarrow> log_record list" where
  "idx_log suggest =
     concat (map (\<lambda>item. atoi_error_log ''sortedIdxSuggest'' (Severity (lookup suggest item)))
               (sorted_keys (\<lambda>item. HasPrefix item ''IDX'') suggest))"

definition heuristic_log :: "RuleMap \<Rightarrow> log_record list" where
  "heuristic_log suggest =
     concat (map (\<lambda>item. if item = ''OK'' then []
                          else atoi_error_log ''sortedHeuristicSuggest''
                                 (Severity (lookup suggest item)))
               (sorted_keys is_heuristic_key suggest))"

text \<open>
  The log of the markdown branch (lines 1335 to 1467). The two score loops run on the map
  that the blocks before them leave, which is the map the branch returns.
\<close>

definition markdown_log ::
  "Env \<Rightarrow> string \<Rightarrow> string \<Rightarrow> string \<Rightarrow> string \<Rightarrow> RuleMap \<Rightarrow> log_record list" where
  "markdown_log env sql format fingerprint qid suggest =
     (let m = fst (markdown_report env sql format fingerprint qid suggest)
      in [(LogDebug, ''FormatSuggest, start of sortedMySQLSuggest'', []),
          (LogDebug, ''FormatSuggest, start of sortedExplainSuggest'', []),
          (LogDebug, ''FormatSuggest, start of sortedProfilingSuggest'', []),
          (LogDebug, ''FormatSuggest, start of sortedTraceSuggest'', []),
          (LogDebug, ''FormatSuggest, start of sortedIdxSuggest'', [])] @
         idx_log m @
         [(LogDebug, ''FormatSuggest, start of sortedHeuristicSuggest'', [])] @
         heuristic_log m)"

text \<open>The log of \<open>formatJSON\<close> (lines 1511 to 1516 and 1574 to 1579).\<close>

definition json_score_log :: "RuleMap \<Rightarrow> string \<times> Rule \<Rightarrow> log_record list" where
  "json_score_log suggest e =
     (let item = fst e; severity = Severity (lookup suggest item)
      in case Atoi (TrimLeft severity ''L'') of
           (l, None) \<Rightarrow> []
         | (l, Some err) \<Rightarrow>
             [(LogError, ''formatJSON strconv.Atoi error: %s, item: %s, serverity: %s'',
               [ArgNumError (TrimLeft severity ''L'') err, ArgString item, ArgString severity])])"

definition formatJSON_log :: "Env \<Rightarrow> string \<Rightarrow> string \<Rightarrow> RuleMap \<Rightarrow> log_record list" where
  "formatJSON_log env sql db suggest =
     concat (map (json_score_log suggest) (map_range env suggest)) @
     (case json_MarshalIndent env (formatJSON_sug env sql db suggest) of
        Some js \<Rightarrow> []
      | None \<Rightarrow> [(LogError, ''formatJSON json.Marshal Error: %v'', [ArgMarshalError])])"

text \<open>
  The map on which the ignore loop of lines 1293 to 1297 runs, and the log of that loop:
  \<open>IsIgnoreRule\<close> logs the code of every finding it ignores (line 1220).
\<close>

definition before_ignore :: "Env \<Rightarrow> RuleMap \<Rightarrow> RuleMap" where
  "before_ignore env merged =
     (let suggest = MergeConflictHeuristicRules env merged;
          ignoreOK = list_ex (\<lambda>r. ''OK'' = r) (IgnoreRules env);
          suggest1 = (if length suggest < 1 then [(''OK'', HeuristicRules_OK)] else suggest)
      in if ignoreOK \<or> length suggest1 > 1 then AList.delete ''OK'' suggest1 else suggest1)"

definition ignore_log :: "Env \<Rightarrow> RuleMap \<Rightarrow> log_record list" where
  "ignore_log env suggest =
     concat (map (\<lambda>e. if IsIgnoreRule (IgnoreRules env) (fst e)
                       then [(LogDebug, ''IsIgnoreRule: %s'', [ArgString (fst e)])] else [])
               (map_range env suggest))"

definition FormatSuggest_log ::
  "Env \<Rightarrow> string \<Rightarrow> string \<Rightarrow> string \<Rightarrow> RuleMap list \<Rightarrow> log_record list" where
  "FormatSuggest_log env sql currentDB format suggests =
     (let fingerprint = (if sql \<noteq> [] then query_Fingerprint env sql else []);
          qid = (if sql \<noteq> [] then query_Id env fingerprint else []);
          merged = merge_suggests suggests;
          suggest = filter_suggest env merged
      in [(LogDebug, ''FormatSuggest, Query: %s'', [ArgString sql])] @
         ignore_log env (before_ignore env merged) @
         [(LogDebug, ''FormatSuggest, format: %s'', [ArgString format])] @
         (if format = ''json'' then formatJSON_log env sql currentDB suggest
          else if format = ''text'' \<or> format = ''lint'' then []
          else if is_markdown_family format
            then markdown_log env sql format fingerprint qid suggest
          else [(LogDebug, ''report-type: %s'', [ArgString format])]))"

text \<open>
  The findings that the markdown family scores, in the order in which it scores them:
  the index findings, then the heuristic findings other than \<open>OK\<close>.
\<close>

definition scored_keys :: "RuleMap \<Rightarrow> string list" where
  "scored_keys suggest =
     sorted_keys (\<lambda>item. HasPrefix item ''IDX'') suggest @
     filter (\<lambda>item. item \<noteq> ''OK'') (sorted_keys is_heuristic_key suggest)"

subsection \<open>Inputs for the examples\<close>

text \<open>
  An environment to run the formatter in. The configuration has no ignore rule and asks
  for the plain report; the conflict resolver finds no conflict; the functions of the
  other packages are replaced by simple stand-ins (the fingerprint is the query itself,
  the ID is \<open>id\<close>, nothing is escaped, the score is not printed, marshalling fails), and
  the runtime visits a map in the order of the list.
\<close>

definition example_env :: Env where
  "example_env =
     \<lparr>IgnoreRules = [],
      ExplainSQLReportType = ''sample'',
      ReportType = ''text'',
      MergeConflictHeuristicRules = (\<lambda>m. m),
      query_Fingerprint = (\<lambda>s. s),
      query_Id = (\<lambda>s. ''id''),
      ast_Pretty = (\<lambda>s f. s),
      ast_SchemaMetaInfo = (\<lambda>s d. []),
      common_Score = (\<lambda>n. []),
      common_MarkdownEscape = (\<lambda>s. s),
      pretty_Sprint = (\<lambda>r. Item r),
      json_MarshalIndent = (\<lambda>j. None),
      map_range = (\<lambda>m. m)\<rparr>"

text \<open>A finding with the given code, severity, summary and content.\<close>

definition finding :: "string \<Rightarrow> string \<Rightarrow> string \<Rightarrow> string \<Rightarrow> string \<times> Rule" where
  "finding code sev summary content =
     (code, \<lparr>Item = code, Severity = sev, Summary = summary, Content = content, Case = [],
             Position = 0\<rparr>)"

subsection \<open>Predicates of the properties\<close>

text \<open>A finding set that is the sentinel \<open>OK\<close> alone, or is without it.\<close>

definition OK_alone :: "RuleMap \<Rightarrow> bool" where
  "OK_alone m = (map fst m = [''OK''] \<or> ''OK'' \<notin> keys m)"

text \<open>
  The digit of a severity \<open>L\<close>\<open>d\<close>, the penalty of a finding set (five points per
  severity digit), and whether a finding set holds a MySQL error: a finding whose code
  begins with \<open>ERR\<close> and whose content is not empty.
\<close>

fun severity_digit :: "string \<Rightarrow> int" where
  "severity_digit [l, d] = digit_val d"
| "severity_digit s = 0"

definition penalty_sum :: "RuleMap \<Rightarrow> int" where
  "penalty_sum m = sum_list (map (\<lambda>e. severity_digit (Severity (snd e)) * 5) m)"

definition has_mysql_error :: "RuleMap \<Rightarrow> bool" where
  "has_mysql_error m = list_ex (\<lambda>e. HasPrefix (fst e) ''ERR'' \<and> Content (snd e) \<noteq> []) m"

text \<open>
  A placeholder is a finding whose code begins with \<open>ERR\<close> and whose content is empty;
  \<open>drop_placeholders\<close> is the finding set without them.
\<close>

definition drop_placeholders :: "RuleMap \<Rightarrow> RuleMap" where
  "drop_placeholders m = filter (\<lambda>e. \<not> is_placeholder m (fst e)) m"

section \<open>Properties\<close>

subsection \<open>The catalog\<close>

text \<open>
  Claim C9. After \<open>InitHeuristicRules\<close>, the keys of the catalog are pairwise different;
  every key is \<open>OK\<close> or three capital letters, a dot and three digits, and equals the
  \<open>Item\<close> field of its entry; every \<open>Severity\<close> is \<open>L\<close> followed by one digit; no key
  begins with \<open>ERR\<close>, \<open>EXP\<close>, \<open>PRO\<close>, \<open>TRA\<close> or \<open>IDX\<close>; and the entry \<open>OK\<close> is
  present.
\<close>

theorem HeuristicRules_invariant:
  "distinct (map fst HeuristicRules_entries) \<and>
   list_all catalog_entry_ok HeuristicRules_entries \<and>
   HeuristicRules ''OK'' = Some (Item HeuristicRules_OK, Severity HeuristicRules_OK)"
proof (intro conjI)
  show "distinct (map fst HeuristicRules_entries)"
    unfolding HeuristicRules_entries_def by simp
  show "list_all catalog_entry_ok HeuristicRules_entries"
    unfolding HeuristicRules_entries_def
    by (simp add: catalog_entry_ok_def external_prefixes_def HasPrefix_def is_upper_def
        is_digit_def)
  show "HeuristicRules ''OK'' = Some (Item HeuristicRules_OK, Severity HeuristicRules_OK)"
    unfolding HeuristicRules_def HeuristicRules_entries_def HeuristicRules_OK_def by simp
qed

subsection \<open>The ignore filter\<close>

lemma HasPrefix_prefix: "HasPrefix s p \<longleftrightarrow> prefix p s"
  unfolding HasPrefix_def
  by (metis append_eq_conv_conj prefix_def append_take_drop_id)

lemma IsIgnoreRule_Trim:
  "IsIgnoreRule patterns item \<longleftrightarrow>
     (\<exists>ir\<in>set patterns. Trim ir ''*'' \<noteq> [] \<and> Trim ir ''*'' \<noteq> ''OK'' \<and> prefix (Trim ir ''*'') item)"
  by (induction patterns) (auto simp: Let_def HasPrefix_prefix)

lemma dropWhile_split: "\<exists>a. s = a @ dropWhile P s \<and> (\<forall>c\<in>set a. P c)"
  by (metis takeWhile_dropWhile_id set_takeWhileD)

text \<open>\<open>Trim\<close> removes a run of cutset characters at each end, and leaves none at either end.\<close>

lemma Trim_decomp:
  "\<exists>a b. s = a @ Trim s cs @ b \<and> set a \<subseteq> set cs \<and> set b \<subseteq> set cs"
proof -
  obtain a where a: "s = a @ TrimLeft s cs" "\<forall>c\<in>set a. c \<in> set cs"
    unfolding TrimLeft_def using dropWhile_split[of s "\<lambda>c. c \<in> set cs"] by blast
  let ?t = "TrimLeft s cs"
  obtain b' where b: "rev ?t = b' @ dropWhile (\<lambda>c. c \<in> set cs) (rev ?t)" "\<forall>c\<in>set b'. c \<in> set cs"
    using dropWhile_split[of "rev ?t" "\<lambda>c. c \<in> set cs"] by blast
  have "?t = rev (dropWhile (\<lambda>c. c \<in> set cs) (rev ?t)) @ rev b'"
    using b(1) by (metis rev_append rev_rev_ident)
  then have "?t = Trim s cs @ rev b'" by (simp add: Trim_def TrimRight_def)
  with a b(2) show ?thesis
    by (intro exI[of _ a] exI[of _ "rev b'"]) auto
qed

lemma Trim_ends:
  assumes "Trim s cs \<noteq> []"
  shows "hd (Trim s cs) \<notin> set cs \<and> last (Trim s cs) \<notin> set cs"
proof -
  let ?P = "\<lambda>c. c \<in> set cs"
  let ?t = "dropWhile ?P s"
  let ?u = "dropWhile ?P (rev ?t)"
  have T: "Trim s cs = rev ?u" by (simp add: Trim_def TrimRight_def TrimLeft_def)
  with assms have u: "?u \<noteq> []" by simp
  then have "\<not> ?P (hd ?u)" by (rule hd_dropWhile)
  then have l: "last (Trim s cs) \<notin> set cs" using u T by (simp add: last_rev)
  have tne: "?t \<noteq> []"
    using u by (metis dropWhile.simps(1) rev.simps(1))
  then have ht: "\<not> ?P (hd ?t)" by (rule hd_dropWhile)
  obtain b' where b: "rev ?t = b' @ ?u"
    using dropWhile_split[of "rev ?t" ?P] by blast
  then have "?t = rev ?u @ rev b'" by (metis rev_append rev_rev_ident)
  then have "hd ?t = hd (rev ?u)" using u by (metis hd_append2 rev_is_Nil_conv)
  with ht T l show ?thesis by simp
qed

lemma Trim_unique:
  assumes "set a \<subseteq> set cs" "set b \<subseteq> set cs" "q \<noteq> []" "hd q \<notin> set cs" "last q \<notin> set cs"
  shows "Trim (a @ q @ b) cs = q"
proof -
  let ?P = "\<lambda>c. c \<in> set cs"
  have 1: "dropWhile ?P (a @ q @ b) = q @ b"
    using assms(1,3,4) by (cases q) (auto simp: dropWhile_append3 dropWhile_append subset_iff)
  have "dropWhile ?P (rev (q @ b)) = rev q"
    using assms(2,3,5)
    by (cases q rule: rev_cases) (auto simp: dropWhile_append subset_iff)
  with 1 show ?thesis by (simp add: Trim_def TrimRight_def TrimLeft_def)
qed

text \<open>
  Claim C4, as the code has it. \<open>IsIgnoreRule\<close> answers true exactly when some pattern,
  with all its leading and all its trailing \<open>*\<close> removed (not only the trailing ones),
  leaves a non-empty string other than \<open>OK\<close> that is a prefix of the code.
\<close>

theorem IsIgnoreRule_iff:
  "IsIgnoreRule patterns item \<longleftrightarrow>
     (\<exists>ir\<in>set patterns. \<exists>a q b.
        ir = a @ q @ b \<and> set a \<subseteq> {CHR ''*''} \<and> set b \<subseteq> {CHR ''*''} \<and>
        q \<noteq> [] \<and> hd q \<noteq> CHR ''*'' \<and> last q \<noteq> CHR ''*'' \<and> q \<noteq> ''OK'' \<and> prefix q item)"
  (is "?L \<longleftrightarrow> ?R")
proof
  assume ?L
  then obtain ir where ir: "ir \<in> set patterns" "Trim ir ''*'' \<noteq> []" "Trim ir ''*'' \<noteq> ''OK''"
      "prefix (Trim ir ''*'') item"
    unfolding IsIgnoreRule_Trim by blast
  obtain a b where ab: "ir = a @ Trim ir ''*'' @ b" "set a \<subseteq> set ''*''" "set b \<subseteq> set ''*''"
    using Trim_decomp[of ir "''*''"] by blast
  from Trim_ends[OF ir(2)] have "hd (Trim ir ''*'') \<noteq> CHR ''*''" "last (Trim ir ''*'') \<noteq> CHR ''*''"
    by auto
  with ir ab show ?R
    by (intro bexI[of _ ir] exI[of _ a] exI[of _ "Trim ir ''*''"] exI[of _ b]) auto
next
  assume ?R
  then obtain ir a q b where h: "ir \<in> set patterns" "ir = a @ q @ b" "set a \<subseteq> {CHR ''*''}"
     "set b \<subseteq> {CHR ''*''}" "q \<noteq> []" "hd q \<noteq> CHR ''*''" "last q \<noteq> CHR ''*''" "q \<noteq> ''OK''"
     "prefix q item"
    by blast
  have "Trim ir ''*'' = q" unfolding h(2) by (rule Trim_unique) (use h in auto)
  with h(1,5,8,9) have "\<exists>ir\<in>set patterns. Trim ir ''*'' \<noteq> [] \<and> Trim ir ''*'' \<noteq> ''OK'' \<and>
      prefix (Trim ir ''*'') item"
    by (intro bexI[of _ ir]) simp_all
  then show ?L by (simp only: IsIgnoreRule_Trim)
qed

text \<open>
  Claim C4, as the specification words it, fails: the pattern \<open>*ALI\<close> keeps its leading
  \<open>*\<close> when only trailing ones are stripped, so it is no prefix of \<open>ALI.001\<close>, yet the
  code ignores \<open>ALI.001\<close>.
\<close>

theorem IsIgnoreRule_leading_star:
  "IsIgnoreRule [''*ALI''] ''ALI.001'' \<and> \<not> spec_is_ignored [''*ALI''] ''ALI.001''"
  by (simp add: spec_is_ignored_def Trim_def TrimLeft_def TrimRight_def HasPrefix_def)

subsection \<open>The blacklist\<close>

text \<open>
  Claim C5, as the code has it. \<open>InBlackList\<close> answers true exactly when some entry equals
  the SQL, or compiles (with \<open>(?i)\<close> in front) to a regular expression whose leftmost
  match in the SQL is not the empty string.
\<close>

theorem InBlackList_iff:
  "InBlackList Compile FindString blacklist sql \<longleftrightarrow>
     (\<exists>r\<in>set blacklist. sql = r \<or>
        (\<exists>re. Compile (''(?i)'' @ r) = Some re \<and> FindString re sql \<noteq> []))"
  by (induction blacklist) (auto split: option.splits)

text \<open>
  Claim C5, as the specification words it, fails: the expression \<open>(?i)x*\<close> matches
  \<open>select 1\<close> (with the empty match at the start), but \<open>FindString\<close> then returns the
  empty string and the code answers false.
\<close>

theorem InBlackList_empty_match:
  "\<not> InBlackList frag_Compile frag_FindString [''x*''] ''select 1'' \<and>
   spec_in_blacklist frag_Compile frag_MatchString [''x*''] ''select 1''"
  by (simp add: spec_in_blacklist_def frag_Compile_def frag_FindString_def frag_MatchString_def
      is_plain_def is_upper_def is_digit_def same_byte_def to_lower_def)

subsection \<open>What the formatter returns as the finding set\<close>

text \<open>Deleting keys from a map, and the keys that remain.\<close>

lemma keys_delete: "keys (AList.delete k m) = keys m - {k}"
  by (auto simp: keys_def AList.delete_eq)

lemma keys_fold_delete: "keys (fold AList.delete ks m) = keys m - set ks"
proof (induction ks arbitrary: m)
  case Nil
  show ?case by simp
next
  case (Cons k ks)
  have "keys (fold AList.delete (k # ks) m) = keys (AList.delete k m) - set ks"
    using Cons.IH[of "AList.delete k m"] by simp
  also have "\<dots> = keys m - set (k # ks)" unfolding keys_delete by auto
  finally show ?case .
qed

lemma keys_filter_fst: "keys (filter (\<lambda>e. Q (fst e)) m) = {k \<in> keys m. Q k}"
  unfolding keys_def by (induction m) auto

lemma set_sorted_keys: "set (sorted_keys p m) = {k \<in> keys m. p k}"
  by (auto simp: sorted_keys_def keys_def)

lemma subseq_delete: "subseq (AList.delete k m) m"
  by (simp add: AList.delete_eq)

lemma subseq_fold_delete: "subseq (fold AList.delete ks m) m"
proof (induction ks arbitrary: m)
  case Nil
  show ?case by simp
next
  case (Cons k ks)
  have "subseq (fold AList.delete ks (AList.delete k m)) (AList.delete k m)" by (rule Cons.IH)
  then show ?case using subseq_delete[of k m] by (simp add: subseq_order.order_trans)
qed

lemma fst_fold_mysql_step:
  "fst (fold mysql_step ks (m, b, s)) = fold AList.delete ks m"
  by (induction ks arbitrary: m b s) (simp_all add: mysql_step_def)

lemma fst_fold_content_step:
  "fst (fold content_step ks (m, b, s)) = fold AList.delete ks m"
  by (induction ks arbitrary: m b s) (simp_all add: content_step_def)

lemma fst_mysql_block:
  "fst (mysql_block (m, b, s)) =
     fold AList.delete
       (sorted_keys (\<lambda>item. HasPrefix item ''ERR'' \<and> Content (lookup m item) \<noteq> []) m)
       (filter (\<lambda>e. \<not> is_placeholder m (fst e)) m)"
  by (simp add: mysql_block_def Let_def fst_fold_mysql_step)

lemma fst_explain_block:
  "fst (explain_block (m, b, s)) =
     (if Item (lookup m ''EXP.000'') \<noteq> [] then AList.delete ''EXP.000'' m else m)"
  by (simp add: explain_block_def Let_def)

lemma fst_content_block:
  "fst (content_block pre name (m, b, s)) =
     fold AList.delete (sorted_keys (\<lambda>item. HasPrefix item pre) m) m"
  by (simp add: content_block_def Let_def fst_fold_content_step)

lemma fst_idx_block: "fst (idx_block env format (m, b, s)) = m"
  by (simp add: idx_block_def Let_def split: prod.splits)

lemma fst_heuristic_block: "fst (heuristic_block env (m, b, s)) = m"
  by (simp add: heuristic_block_def Let_def split: prod.splits)

lemma keys_mysql_block:
  "keys (fst (mysql_block (m, b, s))) = {k \<in> keys m. \<not> HasPrefix k ''ERR''}"
proof -
  have "keys (filter (\<lambda>e. \<not> is_placeholder m (fst e)) m) = {k \<in> keys m. \<not> is_placeholder m k}"
    by (rule keys_filter_fst)
  then show ?thesis
    unfolding fst_mysql_block keys_fold_delete set_sorted_keys
    by (auto simp: is_placeholder_def)
qed

lemma keys_explain_block:
  "keys (fst (explain_block (m, b, s))) \<subseteq> keys m"
  unfolding fst_explain_block by (simp add: keys_delete)

lemma keys_content_block:
  "keys (fst (content_block pre name (m, b, s))) = {k \<in> keys m. \<not> HasPrefix k pre}"
  by (auto simp: fst_content_block keys_fold_delete set_sorted_keys)

lemma subseq_mysql_block: "subseq (fst (mysql_block (m, b, s))) m"
  unfolding fst_mysql_block
  by (rule subseq_order.order_trans[OF subseq_fold_delete]) simp

lemma subseq_explain_block: "subseq (fst (explain_block (m, b, s))) m"
  by (simp add: fst_explain_block subseq_delete)

lemma subseq_content_block: "subseq (fst (content_block pre name (m, b, s))) m"
  by (simp add: fst_content_block subseq_fold_delete)

text \<open>
  The markdown branch only deletes: the map it returns is a sublist of the one it got, and
  no key that begins with \<open>ERR\<close>, \<open>PRO\<close> or \<open>TRA\<close> is left in it.
\<close>

lemma markdown_body_keys:
  "keys (fst (markdown_body env format (m, b, s))) \<subseteq>
     {k \<in> keys m. \<not> HasPrefix k ''ERR'' \<and> \<not> HasPrefix k ''PRO'' \<and> \<not> HasPrefix k ''TRA''}"
proof -
  obtain m1 b1 s1 where 1: "mysql_block (m, b, s) = (m1, b1, s1)" by (cases "mysql_block (m, b, s)")
  obtain m2 b2 s2 where 2: "explain_block (m1, b1, s1) = (m2, b2, s2)" by (cases "explain_block (m1, b1, s1)")
  obtain m3 b3 s3 where 3: "content_block ''PRO'' ''Profiling'' (m2, b2, s2) = (m3, b3, s3)"
    by (cases "content_block ''PRO'' ''Profiling'' (m2, b2, s2)")
  obtain m4 b4 s4 where 4: "content_block ''TRA'' ''Trace'' (m3, b3, s3) = (m4, b4, s4)"
    by (cases "content_block ''TRA'' ''Trace'' (m3, b3, s3)")
  obtain m5 b5 s5 where 5: "idx_block env format (m4, b4, s4) = (m5, b5, s5)"
    by (cases "idx_block env format (m4, b4, s4)")
  have k1: "keys m1 = {k \<in> keys m. \<not> HasPrefix k ''ERR''}" using keys_mysql_block[of m b s] 1 by simp
  have k2: "keys m2 \<subseteq> keys m1" using keys_explain_block[of m1 b1 s1] 2 by simp
  have k3: "keys m3 = {k \<in> keys m2. \<not> HasPrefix k ''PRO''}" using keys_content_block[of "''PRO''" "''Profiling''" m2 b2 s2] 3 by simp
  have k4: "keys m4 = {k \<in> keys m3. \<not> HasPrefix k ''TRA''}" using keys_content_block[of "''TRA''" "''Trace''" m3 b3 s3] 4 by simp
  have k5: "m5 = m4" using fst_idx_block[of env format m4 b4 s4] 5 by simp
  have "fst (markdown_body env format (m, b, s)) = m5"
    by (simp add: markdown_body_def 1 2 3 4 5 fst_heuristic_block)
  with k1 k2 k3 k4 k5 show ?thesis by auto
qed

lemma markdown_body_subseq: "subseq (fst (markdown_body env format (m, b, s))) m"
proof -
  obtain m1 b1 s1 where 1: "mysql_block (m, b, s) = (m1, b1, s1)" by (cases "mysql_block (m, b, s)")
  obtain m2 b2 s2 where 2: "explain_block (m1, b1, s1) = (m2, b2, s2)" by (cases "explain_block (m1, b1, s1)")
  obtain m3 b3 s3 where 3: "content_block ''PRO'' ''Profiling'' (m2, b2, s2) = (m3, b3, s3)"
    by (cases "content_block ''PRO'' ''Profiling'' (m2, b2, s2)")
  obtain m4 b4 s4 where 4: "content_block ''TRA'' ''Trace'' (m3, b3, s3) = (m4, b4, s4)"
    by (cases "content_block ''TRA'' ''Trace'' (m3, b3, s3)")
  obtain m5 b5 s5 where 5: "idx_block env format (m4, b4, s4) = (m5, b5, s5)"
    by (cases "idx_block env format (m4, b4, s4)")
  have k1: "subseq m1 m" using subseq_mysql_block[of m b s] 1 by simp
  have k2: "subseq m2 m1" using subseq_explain_block[of m1 b1 s1] 2 by simp
  have k3: "subseq m3 m2" using subseq_content_block[of "''PRO''" "''Profiling''" m2 b2 s2] 3 by simp
  have k4: "subseq m4 m3" using subseq_content_block[of "''TRA''" "''Trace''" m3 b3 s3] 4 by simp
  have k5: "m5 = m4" using fst_idx_block[of env format m4 b4 s4] 5 by simp
  have "fst (markdown_body env format (m, b, s)) = m5"
    by (simp add: markdown_body_def 1 2 3 4 5 fst_heuristic_block)
  with k1 k2 k3 k4 k5 show ?thesis by (metis subseq_order.order_trans)
qed

lemma format_switch_subseq:
  "subseq (fst (format_switch env sql db format fp qid m)) m"
proof -
  have "subseq (fst (markdown_report env sql format fp qid m)) m"
    unfolding markdown_report_def by (rule markdown_body_subseq)
  then show ?thesis unfolding format_switch_def by (simp del: subseq_Cons2_iff)
qed

lemma fst_FormatSuggest:
  "fst (FormatSuggest env sql db format suggests) =
     fst (format_switch env sql db format
            (if sql \<noteq> [] then query_Fingerprint env sql else [])
            (if sql \<noteq> [] then query_Id env (query_Fingerprint env sql) else [])
            (filter_suggest env (merge_suggests suggests)))"
  by (simp add: FormatSuggest_def Let_def split: prod.splits)

lemma subseq_set: "subseq xs ys \<Longrightarrow> set xs \<subseteq> set ys"
  by (induct rule: list_emb.induct) auto

lemma subseq_keys: "subseq m' m \<Longrightarrow> keys m' \<subseteq> keys m"
  unfolding keys_def using subseq_set by blast

lemma OK_alone_subseq:
  assumes "subseq m' m" "OK_alone m"
  shows "OK_alone m'"
proof (cases "''OK'' \<in> keys m'")
  case False
  then show ?thesis by (simp add: OK_alone_def)
next
  case True
  with subseq_keys[OF assms(1)] have "''OK'' \<in> keys m" by blast
  with assms(2) have "map fst m = [''OK'']" by (simp add: OK_alone_def)
  then obtain e where e: "m = [e]" "fst e = ''OK''" by auto
  have "length m' \<le> 1" using list_emb_length[OF assms(1)] e by simp
  moreover have "m' \<noteq> []" using True by (auto simp: keys_def)
  ultimately obtain e' where e': "m' = [e']" by (cases m') auto
  with subseq_set[OF assms(1)] e have "e' = e" by simp
  with e e' show ?thesis by (simp add: OK_alone_def)
qed

lemma OK_alone_filter_suggest: "OK_alone (filter_suggest env merged)"
proof -
  let ?s = "MergeConflictHeuristicRules env merged"
  let ?s1 = "if length ?s < 1 then [(''OK'', HeuristicRules_OK)] else ?s"
  let ?s2 = "if list_ex (\<lambda>r. ''OK'' = r) (IgnoreRules env) \<or> length ?s1 > 1 then AList.delete ''OK'' ?s1 else ?s1"
  have "OK_alone ?s2"
  proof (cases "list_ex (\<lambda>r. ''OK'' = r) (IgnoreRules env) \<or> length ?s1 > 1")
    case True
    then show ?thesis by (simp add: OK_alone_def keys_delete del: One_nat_def)
  next
    case False
    moreover have "?s1 \<noteq> []" by simp
    ultimately have "length ?s1 = 1" by (cases ?s1) (auto split: if_splits)
    then obtain e where "?s1 = [e]" by (cases ?s1) auto
    with False show ?thesis by (cases e) (auto simp: OK_alone_def keys_def)
  qed
  moreover have "filter_suggest env merged = filter (\<lambda>e. \<not> IsIgnoreRule (IgnoreRules env) (fst e)) ?s2"
    by (simp add: filter_suggest_def Let_def)
  ultimately show ?thesis using OK_alone_subseq[of "filter_suggest env merged" ?s2] by simp
qed


lemmas run_simps = FormatSuggest_def filter_suggest_def merge_suggests_def format_switch_def
  render_def example_env_def finding_def HeuristicRules_OK_def Let_def
  text_lines_def lint_lines_def Sprintln2_def Sprintln1_def nl_def HasPrefix_def
  Trim_def TrimLeft_def TrimRight_def is_markdown_family_def keys_def

lemmas markdown_simps = markdown_report_def markdown_body_def mysql_block_def mysql_step_def
  explain_block_def explain_lines_def content_block_def content_step_def idx_block_def
  idx_step_def heuristic_block_def heuristic_step_def sorted_keys_def lookup_def
  is_placeholder_def query_header_def score_minus_def info_heading_def zero_Rule_def
  Atoi_def is_digit_def digit_val_def sub64_def mul64_def wrap64_def

text \<open>
  Claim C1. For every SQL string, every format, every list of input finding sets and
  every environment, the finding set that \<open>FormatSuggest\<close> returns is either exactly one
  entry under the key \<open>OK\<close>, or has no key \<open>OK\<close>.
\<close>

theorem FormatSuggest_OK_alone:
  "map fst (fst (FormatSuggest env sql currentDB format suggests)) = [''OK''] \<or>
   ''OK'' \<notin> keys (fst (FormatSuggest env sql currentDB format suggests))"
  using OK_alone_subseq[OF format_switch_subseq OK_alone_filter_suggest]
  unfolding fst_FormatSuggest OK_alone_def by blast


lemma ignoreOK_filter_suggest:
  "''OK'' \<in> set (IgnoreRules env) \<Longrightarrow> ''OK'' \<notin> keys (filter_suggest env merged)"
  by (auto simp: filter_suggest_def Let_def keys_def AList.delete_eq list_ex_iff)

text \<open>
  Claim C3, as the code has it. When the ignore list contains the bare token \<open>OK\<close>, the
  returned finding set never contains \<open>OK\<close>: the sentinel is removed also when it is the
  only member.
\<close>

theorem FormatSuggest_ignore_OK:
  "''OK'' \<in> set (IgnoreRules env) \<Longrightarrow>
   ''OK'' \<notin> keys (fst (FormatSuggest env sql currentDB format suggests))"
  using subseq_keys[OF format_switch_subseq] ignoreOK_filter_suggest
  unfolding fst_FormatSuggest by blast


theorem FormatSuggest_ignore_OK_witness:
  "''OK'' \<in> set (IgnoreRules (example_env\<lparr>IgnoreRules := [''OK'']\<rparr>)) \<and>
   ''OK'' \<notin> keys (fst (FormatSuggest (example_env\<lparr>IgnoreRules := [''OK'']\<rparr>) ''select 1'' [] ''text''
       [[finding ''ALI.001'' ''L0'' ''alias'' ''use AS'', (''OK'', HeuristicRules_OK)]]))"
  using FormatSuggest_ignore_OK[of "example_env\<lparr>IgnoreRules := [''OK'']\<rparr>" "''select 1''" "[]" "''text''"
       "[[finding ''ALI.001'' ''L0'' ''alias'' ''use AS'', (''OK'', HeuristicRules_OK)]]"]
  by (simp add: example_env_def)

text \<open>
  Claim C3, as the specification words it, fails: with \<open>OK\<close> in the ignore list and
  \<open>OK\<close> the only member of the merged set, the returned set is empty; \<open>OK\<close> is not
  retained.
\<close>

theorem FormatSuggest_sole_OK_removed:
  "''OK'' \<in> set (IgnoreRules (example_env\<lparr>IgnoreRules := [''OK'']\<rparr>)) \<and>
   map fst (merge_suggests [[(''OK'', HeuristicRules_OK)]]) = [''OK''] \<and>
   fst (FormatSuggest (example_env\<lparr>IgnoreRules := [''OK'']\<rparr>) ''select 1'' [] ''text''
          [[(''OK'', HeuristicRules_OK)]]) = []"
  by (simp add: run_simps)

lemma is_markdown_family_not_other:
  "is_markdown_family format \<Longrightarrow> format \<noteq> ''json'' \<and> format \<noteq> ''text'' \<and> format \<noteq> ''lint''"
  unfolding is_markdown_family_def by auto

lemma format_switch_markdown:
  "is_markdown_family format \<Longrightarrow>
   format_switch env sql db format fp qid m = markdown_report env sql format fp qid m"
  using is_markdown_family_not_other[of format] by (simp add: format_switch_def)

text \<open>
  Claim C10. In the formats \<open>markdown\<close>, \<open>html\<close>, \<open>explain-digest\<close> and
  \<open>duplicate-key-checker\<close>, the finding set that \<open>FormatSuggest\<close> returns has no key that
  begins with \<open>ERR\<close>, \<open>PRO\<close> or \<open>TRA\<close>, whatever the input finding sets held.
\<close>

theorem FormatSuggest_markdown_deletes:
  assumes "is_markdown_family format"
  shows "\<forall>k\<in>keys (fst (FormatSuggest env sql currentDB format suggests)).
     \<not> HasPrefix k ''ERR'' \<and> \<not> HasPrefix k ''PRO'' \<and> \<not> HasPrefix k ''TRA''"
proof
  fix k assume "k \<in> keys (fst (FormatSuggest env sql currentDB format suggests))"
  then have "k \<in> keys (fst (markdown_body env format
      (filter_suggest env (merge_suggests suggests),
       (if sql \<noteq> [] \<and> length (filter_suggest env (merge_suggests suggests)) > 0
        then query_header env sql format
               (if sql \<noteq> [] then query_Fingerprint env sql else [])
               (if sql \<noteq> [] then query_Id env (query_Fingerprint env sql) else [])
        else []),
       100)))"
    unfolding fst_FormatSuggest format_switch_markdown[OF assms] markdown_report_def .
  with markdown_body_keys show "\<not> HasPrefix k ''ERR'' \<and> \<not> HasPrefix k ''PRO'' \<and> \<not> HasPrefix k ''TRA''"
    by blast
qed

theorem FormatSuggest_markdown_deletes_witness:
  "is_markdown_family ''markdown'' \<and>
   map fst (fst (FormatSuggest example_env ''select 1'' [] ''markdown''
     [[finding ''ERR.001'' ''L8'' ''MySQL execute failed'' ''Error 1064'',
       finding ''PRO.001'' ''L0'' ''profile'' ''p'',
       finding ''TRA.001'' ''L0'' ''trace'' ''t'',
       finding ''ALI.001'' ''L0'' ''alias'' ''use AS'']])) = [''ALI.001'']"
  using FormatSuggest_markdown_deletes[of "''markdown''" example_env "''select 1''" "[]"
     "[[finding ''ERR.001'' ''L8'' ''MySQL execute failed'' ''Error 1064'',
       finding ''PRO.001'' ''L0'' ''profile'' ''p'',
       finding ''TRA.001'' ''L0'' ''trace'' ''t'',
       finding ''ALI.001'' ''L0'' ''alias'' ''use AS'']]"]
  by (simp add: run_simps markdown_simps)

subsection \<open>The score of the json report\<close>

lemma wrap64_id: "- (2 ^ 63) \<le> x \<Longrightarrow> x < 2 ^ 63 \<Longrightarrow> wrap64 x = x"
  unfolding wrap64_def by simp

lemma is_digit_nat: "is_digit d \<longleftrightarrow> 48 \<le> (of_char d :: nat) \<and> (of_char d :: nat) \<le> 57"
  unfolding is_digit_def less_eq_char_def by simp

lemma digit_val_nat: "digit_val d = int (of_char d) - 48"
proof -
  have "(of_char d :: int) = int (of_char d)" by (simp only: of_nat_of_char)
  then show ?thesis unfolding digit_val_def by simp
qed

lemma is_digit_val: "is_digit d \<Longrightarrow> 0 \<le> digit_val d \<and> digit_val d \<le> 9"
  unfolding is_digit_nat digit_val_nat by linarith

lemma is_digit_not_sign:
  "is_digit d \<Longrightarrow> d \<noteq> CHR ''L'' \<and> d \<noteq> CHR ''+'' \<and> d \<noteq> CHR ''-''"
  unfolding is_digit_nat by auto

lemma Atoi_digit: "is_digit d \<Longrightarrow> Atoi [d] = (digit_val d, None)"
  using is_digit_val[of d] is_digit_not_sign[of d]
  by (simp add: Atoi_def)

lemma severity_parse:
  assumes "is_severity s"
  shows "fst (Atoi (TrimLeft s ''L'')) = severity_digit s \<and> 0 \<le> severity_digit s \<and>
         severity_digit s \<le> 9"
proof -
  from assms obtain d where s: "s = [CHR ''L'', d]" and d: "is_digit d"
    by (auto elim!: is_severity.elims)
  have "TrimLeft s ''L'' = [d]" using is_digit_not_sign[OF d] by (simp add: s TrimLeft_def)
  then show ?thesis using Atoi_digit[OF d] is_digit_val[OF d] by (simp add: s)
qed

lemma lookup_distinct:
  "distinct (map fst m) \<Longrightarrow> e \<in> set m \<Longrightarrow> lookup m (fst e) = snd e"
  by (cases e) (simp add: lookup_def)

text \<open>One step of the score loop on a well-formed finding, when nothing wraps around.\<close>

lemma json_score_step_plain:
  assumes "lookup suggest (fst e) = snd e" "is_severity (Severity (snd e))"
    and "- (2 ^ 63) + 45 \<le> s" "s \<le> 100"
  shows "json_score_step suggest e s =
     (if HasPrefix (fst e) ''ERR'' \<and> Content (snd e) \<noteq> [] then 0
      else s - severity_digit (Severity (snd e)) * 5)"
proof -
  let ?d = "severity_digit (Severity (snd e))"
  from severity_parse[OF assms(2)]
  have l: "fst (Atoi (TrimLeft (Severity (snd e)) ''L'')) = ?d" and d: "0 \<le> ?d" "?d \<le> 9"
    by simp_all
  have m: "mul64 ?d 5 = ?d * 5" unfolding mul64_def using d by (intro wrap64_id) simp_all
  have "sub64 s (?d * 5) = s - ?d * 5"
    unfolding sub64_def using d assms(3,4) by (intro wrap64_id) simp_all
  with m l show ?thesis by (simp add: json_score_step_def Let_def assms(1))
qed

lemma penalty_sum_nonneg:
  assumes "\<forall>e\<in>set xs. is_severity (Severity (snd e))"
  shows "0 \<le> penalty_sum xs"
  unfolding penalty_sum_def
proof (rule sum_list_nonneg)
  fix x assume "x \<in> set (map (\<lambda>e. severity_digit (Severity (snd e)) * 5) xs)"
  then obtain e where "e \<in> set xs" "x = severity_digit (Severity (snd e)) * 5" by auto
  with assms severity_parse[of "Severity (snd e)"] show "0 \<le> x" by simp
qed

lemma fold_json_score:
  assumes "\<forall>e\<in>set xs. lookup suggest (fst e) = snd e \<and> is_severity (Severity (snd e))"
    and "length xs \<le> N" "45 * int N + 45 \<le> 2 ^ 63"
    and "- 45 * (int N - int (length xs)) \<le> s" "s \<le> 100"
  shows "(has_mysql_error xs \<longrightarrow> fold (json_score_step suggest) xs s \<le> 0) \<and>
         (\<not> has_mysql_error xs \<longrightarrow> fold (json_score_step suggest) xs s = s - penalty_sum xs)"
  using assms
proof (induction xs arbitrary: s)
  case Nil
  show ?case by (simp add: has_mysql_error_def penalty_sum_def)
next
  case (Cons e xs)
  let ?d = "severity_digit (Severity (snd e))"
  let ?err = "HasPrefix (fst e) ''ERR'' \<and> Content (snd e) \<noteq> []"
  let ?s' = "json_score_step suggest e s"
  from Cons.prems(1) have e: "lookup suggest (fst e) = snd e" "is_severity (Severity (snd e))"
    by simp_all
  from severity_parse[OF e(2)] have d: "0 \<le> ?d" "?d \<le> 9" by simp_all
  have lo: "- (2 ^ 63) + 45 \<le> s" using Cons.prems(2,3,4) by simp
  have step: "?s' = (if ?err then 0 else s - ?d * 5)"
    by (rule json_score_step_plain[OF e lo Cons.prems(5)])
  have s'hi: "?s' \<le> 100" using step d Cons.prems(5) by (simp split: if_splits)
  have s'lo: "- 45 * (int N - int (length xs)) \<le> ?s'"
    using step d Cons.prems(2,4) by (simp split: if_splits)
  have IH: "(has_mysql_error xs \<longrightarrow> fold (json_score_step suggest) xs ?s' \<le> 0) \<and>
         (\<not> has_mysql_error xs \<longrightarrow> fold (json_score_step suggest) xs ?s' = ?s' - penalty_sum xs)"
    using Cons.prems(1,2,3) s'lo s'hi by (intro Cons.IH) simp_all
  have pen: "penalty_sum (e # xs) = ?d * 5 + penalty_sum xs" "0 \<le> penalty_sum xs \<or> True"
    by (simp_all add: penalty_sum_def)
  have pos: "0 \<le> penalty_sum xs"
    using Cons.prems(1) by (intro penalty_sum_nonneg) simp
  have herr: "has_mysql_error (e # xs) \<longleftrightarrow> ?err \<or> has_mysql_error xs"
    by (simp add: has_mysql_error_def)
  show ?case
  proof (cases "has_mysql_error xs")
    case True
    with IH herr show ?thesis by simp
  next
    case False
    with IH have r: "fold (json_score_step suggest) (e # xs) s = ?s' - penalty_sum xs" by simp
    show ?thesis
    proof (cases ?err)
      case True
      with r step pos herr show ?thesis by simp
    next
      case False
      with r step herr \<open>\<not> has_mysql_error xs\<close> pen(1) show ?thesis by simp
    qed
  qed
qed

lemma penalty_sum_mset: "mset xs = mset ys \<Longrightarrow> penalty_sum xs = penalty_sum ys"
proof -
  assume "mset xs = mset ys"
  then have "mset (map (\<lambda>e. severity_digit (Severity (snd e)) * 5) xs) =
             mset (map (\<lambda>e. severity_digit (Severity (snd e)) * 5) ys)"
    by simp
  then show ?thesis unfolding penalty_sum_def by (metis sum_mset_sum_list)
qed

lemma has_mysql_error_mset: "mset xs = mset ys \<Longrightarrow> has_mysql_error xs = has_mysql_error ys"
  unfolding has_mysql_error_def list_ex_iff by (metis mset_eq_setD)


lemmas json_simps = formatJSON_score_def json_score_step_def lookup_def Atoi_def is_digit_def
  digit_val_def sub64_def mul64_def wrap64_def TrimLeft_def HasPrefix_def finding_def
  example_env_def Let_def


text \<open>
  Claim C6, as the code has it. Take a finding set whose keys are distinct and whose
  severities are all \<open>L\<close> followed by a digit, with fewer than \<open>2 ^ 57\<close> entries (more
  do not fit a 64-bit address space, and the score cannot wrap around). Whatever the
  order in which the runtime visits the map, the score of the json report starts at 100
  and loses five points per severity digit of each finding; it is 0 when a finding whose
  code begins with \<open>ERR\<close> has a non-empty content; and it lies between 0 and 100.
\<close>

theorem formatJSON_score_spec:
  assumes "distinct (map fst suggest)"
    and "list_all (\<lambda>e. is_severity (Severity (snd e))) suggest"
    and "mset (map_range env suggest) = mset suggest"
    and "length suggest < 2 ^ 57"
  shows "formatJSON_score env suggest =
           (if has_mysql_error suggest then 0 else max 0 (100 - penalty_sum suggest)) \<and>
         0 \<le> formatJSON_score env suggest \<and> formatJSON_score env suggest \<le> 100"
proof -
  let ?xs = "map_range env suggest"
  let ?r = "fold (json_score_step suggest) ?xs 100"
  have set: "set ?xs = set suggest" using assms(3) by (rule mset_eq_setD)
  have len: "length ?xs = length suggest" using assms(3) by (rule mset_eq_length)
  have wf: "\<forall>e\<in>set ?xs. lookup suggest (fst e) = snd e \<and> is_severity (Severity (snd e))"
    using assms(1,2) set by (auto simp: list_all_iff lookup_distinct)
  have "int (length suggest) < 2 ^ 57" using assms(4) by (metis of_nat_less_numeral_power_cancel_iff)
  then have big: "45 * int (length ?xs) + 45 \<le> 2 ^ 63" using len by simp
  have f: "(has_mysql_error ?xs \<longrightarrow> ?r \<le> 0) \<and> (\<not> has_mysql_error ?xs \<longrightarrow> ?r = 100 - penalty_sum ?xs)"
    by (rule fold_json_score[OF wf _ big]) simp_all
  have pen: "penalty_sum ?xs = penalty_sum suggest" using assms(3) by (rule penalty_sum_mset)
  have err: "has_mysql_error ?xs = has_mysql_error suggest" using assms(3) by (rule has_mysql_error_mset)
  have pos: "0 \<le> penalty_sum suggest"
    using assms(2) by (intro penalty_sum_nonneg) (simp add: list_all_iff)
  have sc: "formatJSON_score env suggest = (if ?r < 0 then 0 else ?r)"
    by (simp add: formatJSON_score_def Let_def)
  show ?thesis
  proof (cases "has_mysql_error suggest")
    case True
    with f err have "?r \<le> 0" by simp
    with True sc show ?thesis by simp
  next
    case False
    with f err pen have "?r = 100 - penalty_sum suggest" by simp
    with False sc pos show ?thesis by simp
  qed
qed

theorem formatJSON_score_spec_witness:
  "distinct (map fst [finding ''ALI.002'' ''L8'' ''star alias'' ''c'', finding ''CLA.001'' ''L4'' ''no where'' ''c'']) \<and>
   list_all (\<lambda>e. is_severity (Severity (snd e)))
     [finding ''ALI.002'' ''L8'' ''star alias'' ''c'', finding ''CLA.001'' ''L4'' ''no where'' ''c''] \<and>
   mset (map_range example_env [finding ''ALI.002'' ''L8'' ''star alias'' ''c'', finding ''CLA.001'' ''L4'' ''no where'' ''c'']) =
     mset [finding ''ALI.002'' ''L8'' ''star alias'' ''c'', finding ''CLA.001'' ''L4'' ''no where'' ''c''] \<and>
   length [finding ''ALI.002'' ''L8'' ''star alias'' ''c'', finding ''CLA.001'' ''L4'' ''no where'' ''c''] < 2 ^ 57 \<and>
   formatJSON_score example_env
     [finding ''ALI.002'' ''L8'' ''star alias'' ''c'', finding ''CLA.001'' ''L4'' ''no where'' ''c''] = 40"
proof -
  let ?S = "[finding ''ALI.002'' ''L8'' ''star alias'' ''c'', finding ''CLA.001'' ''L4'' ''no where'' ''c'']"
  have h1: "distinct (map fst ?S)" by (simp add: finding_def)
  have h2: "list_all (\<lambda>e. is_severity (Severity (snd e))) ?S" by (simp add: finding_def is_digit_def)
  have h3: "mset (map_range example_env ?S) = mset ?S" by (simp add: example_env_def)
  have h4: "length ?S < 2 ^ 57" by simp
  have "formatJSON_score example_env ?S = 40"
    using formatJSON_score_spec[OF h1 h2 h3 h4]
    by (simp add: has_mysql_error_def penalty_sum_def finding_def HasPrefix_def digit_val_def)
  with h1 h2 h3 h4 show ?thesis by blast
qed


text \<open>
  Claim C6, as the specification words it, fails for a severity outside that form: the
  code clamps the score at 0 only, and \<open>L-1\<close> parses to \<open>-1\<close>, so the score is 105.
\<close>

theorem formatJSON_score_above_100:
  "formatJSON_score example_env [finding ''ALI.001'' ''L-1'' ''alias'' ''use AS''] = 105"
  by (simp add: json_simps)

subsection \<open>The score of the markdown family\<close>

lemma score_minus_error:
  "snd (Atoi (Trim severity ''L'')) \<noteq> None \<Longrightarrow> score_minus score severity = 0"
  by (cases "Atoi (Trim severity ''L'')") (auto simp: score_minus_def)

lemma fold_idx_step_score:
  "snd (fold (idx_step env format m) ks (buf, s)) =
     fold (\<lambda>item s. score_minus s (Severity (lookup m item))) ks s"
  by (induction ks arbitrary: buf s) (simp_all add: idx_step_def Let_def)

lemma fold_heuristic_step_score:
  "snd (fold (heuristic_step env m) ks (buf, s)) =
     fold (\<lambda>item s. score_minus s (Severity (lookup m item))) (filter (\<lambda>item. item \<noteq> ''OK'') ks) s"
  by (induction ks arbitrary: buf s) (simp_all add: heuristic_step_def Let_def)

lemma score_idx_heuristic:
  "snd (snd (heuristic_block env (idx_block env format (m, b, s)))) =
     fold (\<lambda>item s. score_minus s (Severity (lookup m item))) (scored_keys m) s \<and>
   fst (heuristic_block env (idx_block env format (m, b, s))) = m"
proof -
  obtain b1 s1 where 1: "fold (idx_step env format m) (sorted_keys (\<lambda>item. HasPrefix item ''IDX'') m) (b, s) = (b1, s1)"
    by (cases "fold (idx_step env format m) (sorted_keys (\<lambda>item. HasPrefix item ''IDX'') m) (b, s)")
  have s1: "s1 = fold (\<lambda>item s. score_minus s (Severity (lookup m item)))
                   (sorted_keys (\<lambda>item. HasPrefix item ''IDX'') m) s"
    using fold_idx_step_score[of env format m "sorted_keys (\<lambda>item. HasPrefix item ''IDX'') m" b s] 1 by simp
  have i: "idx_block env format (m, b, s) = (m, b1, s1)" by (simp add: idx_block_def 1)
  obtain b2 s2 where 2: "fold (heuristic_step env m) (sorted_keys is_heuristic_key m) (b1, s1) = (b2, s2)"
    by (cases "fold (heuristic_step env m) (sorted_keys is_heuristic_key m) (b1, s1)")
  have s2: "s2 = fold (\<lambda>item s. score_minus s (Severity (lookup m item)))
                   (filter (\<lambda>item. item \<noteq> ''OK'') (sorted_keys is_heuristic_key m)) s1"
    using fold_heuristic_step_score[of env m "sorted_keys is_heuristic_key m" b1 s1] 2 by simp
  have h: "heuristic_block env (m, b1, s1) = (m, b2, s2)"
    using 2 by (simp add: heuristic_block_def is_heuristic_key_def[abs_def])
  show ?thesis unfolding i h by (simp add: s2 s1 scored_keys_def)
qed

text \<open>The score of the markdown family from the map the branch returns.\<close>

lemma markdown_report_score:
  "\<exists>s0. snd (snd (markdown_report env sql format fp qid suggest)) =
     fold (\<lambda>item s. score_minus s (Severity (lookup (fst (markdown_report env sql format fp qid suggest)) item)))
       (scored_keys (fst (markdown_report env sql format fp qid suggest))) s0"
proof -
  let ?st = "content_block ''TRA'' ''Trace'' (content_block ''PRO'' ''Profiling''
      (explain_block (mysql_block (suggest,
        (if sql \<noteq> [] \<and> length suggest > 0 then query_header env sql format fp qid else []), 100))))"
  obtain m b s where st: "?st = (m, b, s)" by (cases ?st)
  have r: "markdown_report env sql format fp qid suggest = heuristic_block env (idx_block env format (m, b, s))"
    by (simp only: markdown_report_def markdown_body_def st)
  show ?thesis unfolding r using score_idx_heuristic[of env format m b s] by auto
qed

lemma atoi_error_log_record:
  "snd (Atoi (Trim severity ''L'')) \<noteq> None \<Longrightarrow>
   atoi_error_log loop severity =
     [(LogDebug, ''FormatSuggest, '' @ loop @ '', strconv.Atoi, Error: '',
       [ArgNumError (Trim severity ''L'') (the (snd (Atoi (Trim severity ''L''))))])]"
  by (cases "Atoi (Trim severity ''L'')") (auto simp: atoi_error_log_def)


lemma filter_suggest_before_ignore:
  "filter_suggest env merged =
     filter (\<lambda>e. \<not> IsIgnoreRule (IgnoreRules env) (fst e)) (before_ignore env merged)"
  by (simp add: filter_suggest_def before_ignore_def Let_def)

text \<open>The rendered string shows the score that \<open>FormatSuggest_score\<close> names.\<close>

lemma FormatSuggest_renders_score:
  "\<exists>buf. snd (FormatSuggest env sql currentDB format suggests) =
     render env buf (FormatSuggest_score env sql currentDB format suggests)"
proof -
  let ?fp = "if sql \<noteq> [] then query_Fingerprint env sql else []"
  let ?qid = "if sql \<noteq> [] then query_Id env ?fp else []"
  obtain m b s where st: "format_switch env sql currentDB format ?fp ?qid
      (filter_suggest env (merge_suggests suggests)) = (m, b, s)"
    by (cases "format_switch env sql currentDB format ?fp ?qid
      (filter_suggest env (merge_suggests suggests))")
  have "snd (FormatSuggest env sql currentDB format suggests) = render env b s"
    unfolding FormatSuggest_def Let_def st by simp
  moreover have "FormatSuggest_score env sql currentDB format suggests = s"
    unfolding FormatSuggest_score_def Let_def st by simp
  ultimately show ?thesis by blast
qed

text \<open>
  Claim C7, as the code has it. Take a format of the markdown family and a finding that
  the report scores: an index finding, or a heuristic finding other than \<open>OK\<close>, of the
  finding set that \<open>FormatSuggest\<close> returns. When \<open>strconv.Atoi\<close> fails on its severity
  (with its leading and trailing \<open>L\<close>s trimmed), the failure is logged, and the score is
  set to 0 at that finding: the final score is what the findings scored after it
  subtract from 0.
\<close>

theorem markdown_score_parse_error:
  assumes fam: "is_markdown_family format"
    and keys: "scored_keys (fst (FormatSuggest env sql currentDB format suggests)) = before @ item # after"
    and err: "snd (Atoi (Trim (Severity (lookup (fst (FormatSuggest env sql currentDB format suggests)) item)) ''L'')) = Some e"
  shows "FormatSuggest_score env sql currentDB format suggests =
           fold (\<lambda>k s. score_minus s
                   (Severity (lookup (fst (FormatSuggest env sql currentDB format suggests)) k)))
             after 0 \<and>
         (\<exists>loop\<in>{''sortedIdxSuggest'', ''sortedHeuristicSuggest''}.
            (LogDebug, ''FormatSuggest, '' @ loop @ '', strconv.Atoi, Error: '',
             [ArgNumError
                (Trim (Severity (lookup (fst (FormatSuggest env sql currentDB format suggests)) item)) ''L'')
                e])
            \<in> set (FormatSuggest_log env sql currentDB format suggests))"
proof
  let ?fp = "if sql \<noteq> [] then query_Fingerprint env sql else []"
  let ?qid = "if sql \<noteq> [] then query_Id env ?fp else []"
  let ?M = "filter_suggest env (merge_suggests suggests)"
  let ?R = "markdown_report env sql format ?fp ?qid ?M"
  let ?S = "fst (FormatSuggest env sql currentDB format suggests)"
  let ?sev = "Severity (lookup ?S item)"
  have S: "?S = fst ?R"
    by (simp add: FormatSuggest_def Let_def format_switch_markdown[OF fam] split: prod.splits)
  have sc: "FormatSuggest_score env sql currentDB format suggests = snd (snd ?R)"
    by (simp add: FormatSuggest_score_def Let_def format_switch_markdown[OF fam])
  have lg: "FormatSuggest_log env sql currentDB format suggests =
      [(LogDebug, ''FormatSuggest, Query: %s'', [ArgString sql])] @
      ignore_log env (before_ignore env (merge_suggests suggests)) @
      [(LogDebug, ''FormatSuggest, format: %s'', [ArgString format])] @
      markdown_log env sql format ?fp ?qid ?M"
    using is_markdown_family_not_other[OF fam] fam by (simp add: FormatSuggest_log_def Let_def)
  have ne: "snd (Atoi (Trim ?sev ''L'')) \<noteq> None" using err by simp
  obtain s0 where "snd (snd ?R) =
      fold (\<lambda>k s. score_minus s (Severity (lookup (fst ?R) k))) (scored_keys (fst ?R)) s0"
    using markdown_report_score[of env sql format ?fp ?qid ?M] by blast
  then have "FormatSuggest_score env sql currentDB format suggests =
      fold (\<lambda>k s. score_minus s (Severity (lookup ?S k))) (before @ item # after) s0"
    using sc S keys by simp
  then show "FormatSuggest_score env sql currentDB format suggests =
      fold (\<lambda>k s. score_minus s (Severity (lookup ?S k))) after 0"
    using score_minus_error[OF ne] by simp
  let ?rec = "\<lambda>loop. (LogDebug, ''FormatSuggest, '' @ loop @ '', strconv.Atoi, Error: '',
             [ArgNumError (Trim ?sev ''L'') e])"
  have rec: "atoi_error_log loop ?sev = [?rec loop]" for loop
    using atoi_error_log_record[OF ne, of loop] err by simp
  have mem: "item \<in> set (scored_keys ?S)" using keys by simp
  have "?rec ''sortedIdxSuggest'' \<in> set (idx_log ?S) \<or> ?rec ''sortedHeuristicSuggest'' \<in> set (heuristic_log ?S)"
  proof (cases "item \<in> set (sorted_keys (\<lambda>item. HasPrefix item ''IDX'') ?S)")
    case True
    then have "?rec ''sortedIdxSuggest'' \<in> set (idx_log ?S)"
      unfolding idx_log_def set_concat using rec[of "''sortedIdxSuggest''"] by force
    then show ?thesis ..
  next
    case False
    with mem have h: "item \<noteq> ''OK''" "item \<in> set (sorted_keys is_heuristic_key ?S)"
      by (auto simp: scored_keys_def)
    then have "?rec ''sortedHeuristicSuggest'' \<in> set (heuristic_log ?S)"
      unfolding heuristic_log_def set_concat using rec[of "''sortedHeuristicSuggest''"] by force
    then show ?thesis ..
  qed
  then have "?rec ''sortedIdxSuggest'' \<in> set (markdown_log env sql format ?fp ?qid ?M) \<or>
             ?rec ''sortedHeuristicSuggest'' \<in> set (markdown_log env sql format ?fp ?qid ?M)"
    unfolding markdown_log_def Let_def S by auto
  then show "\<exists>loop\<in>{''sortedIdxSuggest'', ''sortedHeuristicSuggest''}.
      ?rec loop \<in> set (FormatSuggest_log env sql currentDB format suggests)"
    unfolding lg by auto
qed

theorem markdown_score_parse_error_witness:
  "is_markdown_family ''markdown'' \<and>
   scored_keys (fst (FormatSuggest example_env ''select 1'' [] ''markdown''
      [[finding ''ALI.001'' ''L8'' ''a'' ''b'', finding ''CLA.001'' [] ''c'' ''d'',
        finding ''COL.001'' ''L1'' ''e'' ''f'']])) = [''ALI.001''] @ ''CLA.001'' # [''COL.001''] \<and>
   snd (Atoi (Trim (Severity (lookup (fst (FormatSuggest example_env ''select 1'' [] ''markdown''
      [[finding ''ALI.001'' ''L8'' ''a'' ''b'', finding ''CLA.001'' [] ''c'' ''d'',
        finding ''COL.001'' ''L1'' ''e'' ''f'']])) ''CLA.001'')) ''L'')) = Some ErrSyntax \<and>
   FormatSuggest_score example_env ''select 1'' [] ''markdown''
      [[finding ''ALI.001'' ''L8'' ''a'' ''b'', finding ''CLA.001'' [] ''c'' ''d'',
        finding ''COL.001'' ''L1'' ''e'' ''f'']] = - 5 \<and>
   (LogDebug, ''FormatSuggest, sortedHeuristicSuggest, strconv.Atoi, Error: '',
    [ArgNumError [] ErrSyntax]) \<in>
     set (FormatSuggest_log example_env ''select 1'' [] ''markdown''
      [[finding ''ALI.001'' ''L8'' ''a'' ''b'', finding ''CLA.001'' [] ''c'' ''d'',
        finding ''COL.001'' ''L1'' ''e'' ''f'']])"
proof -
  let ?I = "[[finding ''ALI.001'' ''L8'' ''a'' ''b'', finding ''CLA.001'' [] ''c'' ''d'',
        finding ''COL.001'' ''L1'' ''e'' ''f'']]"
  let ?S = "fst (FormatSuggest example_env ''select 1'' [] ''markdown'' ?I)"
  have S: "?S = [finding ''ALI.001'' ''L8'' ''a'' ''b'', finding ''CLA.001'' [] ''c'' ''d'',
        finding ''COL.001'' ''L1'' ''e'' ''f'']"
    by (simp add: run_simps markdown_simps)
  have h1: "is_markdown_family ''markdown''" by (simp add: is_markdown_family_def)
  have h2: "scored_keys ?S = [''ALI.001''] @ ''CLA.001'' # [''COL.001'']"
    unfolding S by (simp add: scored_keys_def sorted_keys_def is_heuristic_key_def HasPrefix_def
        finding_def)
  have h3: "snd (Atoi (Trim (Severity (lookup ?S ''CLA.001'')) ''L'')) = Some ErrSyntax"
    unfolding S by (simp add: lookup_def finding_def Trim_def TrimLeft_def TrimRight_def Atoi_def)
  have sc: "FormatSuggest_score example_env ''select 1'' [] ''markdown'' ?I = - 5"
    using markdown_score_parse_error[OF h1 h2 h3] unfolding S
    by (simp add: lookup_def finding_def score_minus_def Trim_def TrimLeft_def TrimRight_def
        Atoi_def is_digit_def digit_val_def sub64_def mul64_def wrap64_def)
  let ?L = "[finding ''ALI.001'' ''L8'' ''a'' ''b'', finding ''CLA.001'' [] ''c'' ''d'',
        finding ''COL.001'' ''L1'' ''e'' ''f'']"
  have hl: "heuristic_log ?L =
      [(LogDebug, ''FormatSuggest, sortedHeuristicSuggest, strconv.Atoi, Error: '',
        [ArgNumError [] ErrSyntax])]"
    by (simp add: heuristic_log_def atoi_error_log_def is_heuristic_key_def sorted_keys_def
        lookup_def finding_def HasPrefix_def Trim_def TrimLeft_def TrimRight_def Atoi_def
        is_digit_def digit_val_def)
  have f: "filter_suggest example_env (merge_suggests ?I) = ?L"
    by (simp add: run_simps)
  have m: "fst (markdown_report example_env ''select 1'' ''markdown'' ''select 1'' ''id'' ?L) = ?L"
    by (simp add: markdown_simps finding_def HasPrefix_def example_env_def Sprintln2_def
        Sprintln1_def nl_def Trim_def TrimLeft_def TrimRight_def)
  have "markdown_log example_env ''select 1'' ''markdown'' ''select 1'' ''id'' ?L =
      [(LogDebug, ''FormatSuggest, start of sortedMySQLSuggest'', []),
       (LogDebug, ''FormatSuggest, start of sortedExplainSuggest'', []),
       (LogDebug, ''FormatSuggest, start of sortedProfilingSuggest'', []),
       (LogDebug, ''FormatSuggest, start of sortedTraceSuggest'', []),
       (LogDebug, ''FormatSuggest, start of sortedIdxSuggest'', [])] @
      idx_log ?L @
      [(LogDebug, ''FormatSuggest, start of sortedHeuristicSuggest'', [])] @
      heuristic_log ?L"
    unfolding markdown_log_def Let_def m ..
  then have ml: "(LogDebug, ''FormatSuggest, sortedHeuristicSuggest, strconv.Atoi, Error: '',
      [ArgNumError [] ErrSyntax]) \<in>
      set (markdown_log example_env ''select 1'' ''markdown'' ''select 1'' ''id'' ?L)"
    by (simp add: hl)
  have "FormatSuggest_log example_env ''select 1'' [] ''markdown'' ?I =
      [(LogDebug, ''FormatSuggest, Query: %s'', [ArgString ''select 1''])] @
      ignore_log example_env (before_ignore example_env (merge_suggests ?I)) @
      [(LogDebug, ''FormatSuggest, format: %s'', [ArgString ''markdown''])] @
      markdown_log example_env ''select 1'' ''markdown'' ''select 1'' ''id'' ?L"
    unfolding FormatSuggest_log_def Let_def f
    by (simp add: is_markdown_family_def example_env_def)
  with ml have lg: "(LogDebug, ''FormatSuggest, sortedHeuristicSuggest, strconv.Atoi, Error: '',
      [ArgNumError [] ErrSyntax]) \<in>
     set (FormatSuggest_log example_env ''select 1'' [] ''markdown'' ?I)"
    by simp
  from h1 h2 h3 sc lg show ?thesis by blast
qed

text \<open>
  Claim C7, as the specification words it, fails. The severity \<open>7\<close> is not \<open>L\<close>
  followed by a digit, yet it parses and the markdown score becomes 65, not 0. An
  explain finding is not scored in the markdown family, so its severity is never parsed
  and the score stays 100. And in the json report a severity that does not parse (the
  empty string) leaves the score at 100: there the penalty of such a finding is 0.
\<close>

theorem score_not_zero_on_bad_severity:
  "\<not> is_severity ''7'' \<and>
   FormatSuggest_score example_env ''select 1'' [] ''markdown''
     [[finding ''ALI.001'' ''7'' ''alias'' ''use AS'']] = 65 \<and>
   \<not> is_severity [] \<and>
   FormatSuggest_score example_env ''select 1'' [] ''markdown''
     [[finding ''EXP.001'' [] ''explain'' ''full scan'']] = 100 \<and>
   formatJSON_score example_env [finding ''ALI.001'' [] ''alias'' ''use AS''] = 100"
  by (simp add: FormatSuggest_score_def formatJSON_score_def json_score_step_def run_simps
      markdown_simps)

subsection \<open>Placeholders\<close>

lemma map_of_filter_key:
  "map_of (filter (\<lambda>e. Q (fst e)) m) k = (if Q k then map_of m k else None)"
  by (induction m) auto

lemma lookup_drop_placeholders:
  "\<not> is_placeholder m k \<Longrightarrow> lookup (drop_placeholders m) k = lookup m k"
  using map_of_filter_key[of "\<lambda>k. \<not> is_placeholder m k" m k]
  by (simp add: lookup_def drop_placeholders_def)

lemma is_placeholder_drop:
  "\<not> is_placeholder m k \<Longrightarrow> \<not> is_placeholder (drop_placeholders m) k"
  by (simp add: is_placeholder_def lookup_drop_placeholders)

lemma keys_drop_placeholders:
  "map fst (drop_placeholders m) = filter (\<lambda>k. \<not> is_placeholder m k) (map fst m)"
  by (simp add: drop_placeholders_def filter_map comp_def)

lemma drop_placeholders_idem:
  "filter (\<lambda>e. \<not> is_placeholder (drop_placeholders m) (fst e)) (drop_placeholders m) =
   drop_placeholders m"
proof -
  have "\<forall>e\<in>set (drop_placeholders m). \<not> is_placeholder (drop_placeholders m) (fst e)"
  proof
    fix e assume "e \<in> set (drop_placeholders m)"
    then have "\<not> is_placeholder m (fst e)" by (simp add: drop_placeholders_def)
    then show "\<not> is_placeholder (drop_placeholders m) (fst e)" by (rule is_placeholder_drop)
  qed
  then show ?thesis by (simp add: filter_id_conv)
qed

lemma sorted_keys_drop:
  assumes "\<And>k. \<not> is_placeholder m k \<Longrightarrow> p' k = p k" "\<And>k. is_placeholder m k \<Longrightarrow> \<not> p k"
  shows "sorted_keys p' (drop_placeholders m) = sorted_keys p m"
proof -
  have "filter p' (filter (\<lambda>k. \<not> is_placeholder m k) (map fst m)) = filter p (map fst m)"
    unfolding filter_filter using assms by (intro filter_cong) auto
  then show ?thesis by (simp add: sorted_keys_def keys_drop_placeholders)
qed

lemma mysql_block_drop:
  "mysql_block (drop_placeholders m, buf, score) = mysql_block (m, buf, score)"
proof -
  have k: "sorted_keys (\<lambda>item. HasPrefix item ''ERR'' \<and> Content (lookup (drop_placeholders m) item) \<noteq> [])
             (drop_placeholders m) =
           sorted_keys (\<lambda>item. HasPrefix item ''ERR'' \<and> Content (lookup m item) \<noteq> []) m"
    by (rule sorted_keys_drop) (auto simp: lookup_drop_placeholders is_placeholder_def)
  show ?thesis
    unfolding mysql_block_def
    by (simp add: k drop_placeholders_idem Let_def) (simp add: drop_placeholders_def)
qed

lemma prefix3_distinct:
  "HasPrefix k ''EXP'' \<Longrightarrow> \<not> HasPrefix k ''ERR''"
  "HasPrefix k ''IDX'' \<Longrightarrow> \<not> HasPrefix k ''ERR''"
  by (auto simp: HasPrefix_def)


text \<open>
  The markdown family deletes the placeholders before it scores or prints: the blocks
  after the header give the same map, the same lines and the same score as for the
  finding set without them, and the three arrays of the json report are those of the
  finding set without them.
\<close>

lemma markdown_blocks_drop_placeholders:
  "markdown_body env format (drop_placeholders suggest, buf, score) =
     markdown_body env format (suggest, buf, score) \<and>
   json_Explain (formatJSON_sug env sql db (drop_placeholders suggest)) =
     json_Explain (formatJSON_sug env sql db suggest) \<and>
   json_IndexRules (formatJSON_sug env sql db (drop_placeholders suggest)) =
     json_IndexRules (formatJSON_sug env sql db suggest) \<and>
   json_HeuristicRules (formatJSON_sug env sql db (drop_placeholders suggest)) =
     json_HeuristicRules (formatJSON_sug env sql db suggest)"
proof (intro conjI)
  show "markdown_body env format (drop_placeholders suggest, buf, score) =
     markdown_body env format (suggest, buf, score)"
    by (simp add: markdown_body_def mysql_block_drop)
next
  let ?m = suggest and ?m' = "drop_placeholders suggest"
  have k: "sorted_keys (\<lambda>item. HasPrefix item ''EXP'') ?m' = sorted_keys (\<lambda>item. HasPrefix item ''EXP'') ?m"
    by (rule sorted_keys_drop) (auto simp: is_placeholder_def dest: prefix3_distinct)
  have "map (lookup ?m') (sorted_keys (\<lambda>item. HasPrefix item ''EXP'') ?m) =
        map (lookup ?m) (sorted_keys (\<lambda>item. HasPrefix item ''EXP'') ?m)"
    by (intro map_cong refl lookup_drop_placeholders)
       (auto simp: sorted_keys_def is_placeholder_def dest: prefix3_distinct)
  with k show "json_Explain (formatJSON_sug env sql db ?m') = json_Explain (formatJSON_sug env sql db ?m)"
    by (simp add: formatJSON_sug_def Let_def)
next
  let ?m = suggest and ?m' = "drop_placeholders suggest"
  have k: "sorted_keys (\<lambda>item. HasPrefix item ''IDX'') ?m' = sorted_keys (\<lambda>item. HasPrefix item ''IDX'') ?m"
    by (rule sorted_keys_drop) (auto simp: is_placeholder_def dest: prefix3_distinct)
  have "map (lookup ?m') (sorted_keys (\<lambda>item. HasPrefix item ''IDX'') ?m) =
        map (lookup ?m) (sorted_keys (\<lambda>item. HasPrefix item ''IDX'') ?m)"
    by (intro map_cong refl lookup_drop_placeholders)
       (auto simp: sorted_keys_def is_placeholder_def dest: prefix3_distinct)
  with k show "json_IndexRules (formatJSON_sug env sql db ?m') = json_IndexRules (formatJSON_sug env sql db ?m)"
    by (simp add: formatJSON_sug_def Let_def)
next
  let ?m = suggest and ?m' = "drop_placeholders suggest"
  let ?p = "\<lambda>m item. \<not> HasPrefix item ''EXP'' \<and> \<not> HasPrefix item ''IDX'' \<and>
                    \<not> (HasPrefix item ''ERR'' \<and> Content (lookup m item) = [])"
  have k: "sorted_keys (?p ?m') ?m' = sorted_keys (?p ?m) ?m"
    by (rule sorted_keys_drop) (auto simp: is_placeholder_def lookup_drop_placeholders)
  have "map (lookup ?m') (sorted_keys (?p ?m) ?m) = map (lookup ?m) (sorted_keys (?p ?m) ?m)"
    by (intro map_cong refl lookup_drop_placeholders)
       (auto simp: sorted_keys_def is_placeholder_def)
  with k show "json_HeuristicRules (formatJSON_sug env sql db ?m') =
     json_HeuristicRules (formatJSON_sug env sql db ?m)"
    by (simp add: formatJSON_sug_def Let_def)
qed


text \<open>
  Claim C8 at failing inputs. A finding \<open>ERR.001\<close> with empty content is a placeholder.
  The format \<open>lint\<close> prints it and returns it, and so does the format \<open>text\<close>. The json
  report leaves it out of its arrays, but its score loop subtracts the placeholder's
  severity: one of severity \<open>L2\<close> costs ten points. The markdown family deletes it and
  returns the set without it; but the placeholder is still counted when the sentinel
  \<open>OK\<close> is removed from a set of more than one member, so \<open>OK\<close> with a placeholder
  comes back as the empty set.
\<close>

theorem placeholder_rendered:
  "is_placeholder [finding ''ERR.001'' ''L0'' ''MySQL execute failed'' []] ''ERR.001'' \<and>
   FormatSuggest example_env ''select 1'' [] ''lint''
     [[finding ''ERR.001'' ''L0'' ''MySQL execute failed'' []]] =
     ([finding ''ERR.001'' ''L0'' ''MySQL execute failed'' []], ''ERR.001 MySQL execute failed'') \<and>
   fst (FormatSuggest example_env ''select 1'' [] ''text''
     [[finding ''ERR.001'' ''L0'' ''MySQL execute failed'' []]]) =
     [finding ''ERR.001'' ''L0'' ''MySQL execute failed'' []] \<and>
   formatJSON_score example_env [finding ''ERR.001'' ''L2'' ''MySQL execute failed'' []] = 90 \<and>
   fst (FormatSuggest example_env ''select 1'' [] ''markdown''
     [[finding ''ERR.001'' ''L0'' ''MySQL execute failed'' [],
       finding ''ALI.001'' ''L0'' ''alias'' ''use AS'']]) =
     [finding ''ALI.001'' ''L0'' ''alias'' ''use AS''] \<and>
   fst (FormatSuggest example_env ''select 1'' [] ''markdown''
     [[(''OK'', HeuristicRules_OK), finding ''ERR.001'' ''L0'' ''MySQL execute failed'' []]]) = []"
  by (simp add: run_simps json_score_step_def formatJSON_score_def markdown_simps)

subsection \<open>The order of the findings in the report\<close>

text \<open>
  The returned finding set does not depend on the order in which the runtime visits a
  map, and neither does the report of the markdown family, where the keys are sorted.
\<close>

lemma heuristic_step_range:
  "heuristic_step (env\<lparr>map_range := r\<rparr>) = heuristic_step env"
  by (intro ext) (simp add: heuristic_step_def Let_def split: prod.splits)

lemma idx_step_range: "idx_step (env\<lparr>map_range := r\<rparr>) = idx_step env"
  by (intro ext) (simp add: idx_step_def Let_def split: prod.splits)

lemma query_header_range: "query_header (env\<lparr>map_range := r\<rparr>) = query_header env"
  by (intro ext) (simp add: query_header_def Let_def)

lemma markdown_report_range:
  "markdown_report (env\<lparr>map_range := r\<rparr>) sql format fp qid m = markdown_report env sql format fp qid m"
  by (simp only: markdown_report_def markdown_body_def heuristic_block_def idx_block_def
      heuristic_step_range idx_step_range query_header_range)

lemma filter_suggest_range:
  "filter_suggest (env\<lparr>map_range := r\<rparr>) m = filter_suggest env m"
  by (simp add: filter_suggest_def)

lemma render_range: "render (env\<lparr>map_range := r\<rparr>) = render env"
  by (intro ext) (simp add: render_def)

lemma FormatSuggest_set_deterministic:
  "fst (FormatSuggest (env\<lparr>map_range := r\<rparr>) sql db format suggests) =
   fst (FormatSuggest env sql db format suggests)"
  by (simp add: FormatSuggest_def Let_def format_switch_def filter_suggest_range
      markdown_report_range split: prod.splits)

lemma FormatSuggest_markdown_deterministic:
  assumes "is_markdown_family format"
  shows "FormatSuggest (env\<lparr>map_range := r\<rparr>) sql db format suggests =
   FormatSuggest env sql db format suggests"
proof -
  have "format \<noteq> ''json'' \<and> format \<noteq> ''text'' \<and> format \<noteq> ''lint''"
    using assms unfolding is_markdown_family_def by auto
  then show ?thesis
    using assms
    by (simp add: FormatSuggest_def Let_def format_switch_def filter_suggest_range
      markdown_report_range render_range)
qed

text \<open>
  Claim C2 at a failing input. The formats \<open>text\<close> and \<open>lint\<close> print the findings in
  the order in which the runtime visits the map. With two findings, two admissible
  orders give the same finding set and two different reports.
\<close>

theorem FormatSuggest_text_order:
  "admissible_range (\<lambda>m. m) \<and> admissible_range rev \<and>
   fst (FormatSuggest (example_env\<lparr>map_range := (\<lambda>m. m)\<rparr>) ''select 1'' [] ''text''
      [[finding ''ALI.001'' ''L0'' ''alias'' ''a'', finding ''CLA.001'' ''L4'' ''no where'' ''b'']]) =
   fst (FormatSuggest (example_env\<lparr>map_range := rev\<rparr>) ''select 1'' [] ''text''
      [[finding ''ALI.001'' ''L0'' ''alias'' ''a'', finding ''CLA.001'' ''L4'' ''no where'' ''b'']]) \<and>
   snd (FormatSuggest (example_env\<lparr>map_range := (\<lambda>m. m)\<rparr>) ''select 1'' [] ''text''
      [[finding ''ALI.001'' ''L0'' ''alias'' ''a'', finding ''CLA.001'' ''L4'' ''no where'' ''b'']]) \<noteq>
   snd (FormatSuggest (example_env\<lparr>map_range := rev\<rparr>) ''select 1'' [] ''text''
      [[finding ''ALI.001'' ''L0'' ''alias'' ''a'', finding ''CLA.001'' ''L4'' ''no where'' ''b'']]) \<and>
   snd (FormatSuggest (example_env\<lparr>map_range := (\<lambda>m. m)\<rparr>) ''select 1'' [] ''lint''
      [[finding ''ALI.001'' ''L0'' ''alias'' ''a'', finding ''CLA.001'' ''L4'' ''no where'' ''b'']]) =
     ''ALI.001 alias'' @ nl @ ''CLA.001 no where'' \<and>
   snd (FormatSuggest (example_env\<lparr>map_range := rev\<rparr>) ''select 1'' [] ''lint''
      [[finding ''ALI.001'' ''L0'' ''alias'' ''a'', finding ''CLA.001'' ''L4'' ''no where'' ''b'']]) =
     ''CLA.001 no where'' @ nl @ ''ALI.001 alias''"
  by (simp add: admissible_range_def run_simps)

end
